theory Spec2Isabelle
  imports Main "HOL-Library.AList"
begin

section \<open>Errors\<close>

text \<open>
  Every error the two packages create or pass on, one constructor per message of the
  source. A Go function returning \<open>(T, error)\<close> becomes a function into \<open>error + T\<close>;
  a function returning only \<open>error\<close> becomes a function into \<open>error option\<close>
  (\<open>None\<close> is \<open>nil\<close>).
\<close>

datatype error =
    HealthCheckConflict
      \<comment> \<open>"healthcheck.test and healthcheck.command can not both be specified"\<close>
  | TimeFieldError string
      \<comment> \<open>"Could not parse %s either as an integer or a duration (ex: 1m30s)"\<close>
  | SubnetRequired
      \<comment> \<open>"at least one subnet is required in the network configuration"\<close>
  | ProfileFormatIssue
      \<comment> \<open>"Format issue with profile config file; expected key not found."\<close>
  | ClusterFormatIssue
      \<comment> \<open>"Format issue with cluster config file; expected key not found."\<close>
  | ProfileClusterFormatIssue
      \<comment> \<open>"Format issue with profile cluster file; expected key not found."\<close>
  | NotExist string
      \<comment> \<open>the operating system's "no such file or directory" for a path\<close>
  | OSError string
      \<comment> \<open>any other failure of a file-system call, with its message\<close>
  | YamlError string
      \<comment> \<open>a failure of the YAML decoder\<close>
  | DurationError string
      \<comment> \<open>\<open>time.ParseDuration\<close>: "time: invalid duration", "missing unit", "unknown unit"\<close>
  | NumError string
      \<comment> \<open>\<open>strconv.ParseInt\<close>: "invalid syntax" or "value out of range"\<close>
  | Wrapf string error
      \<comment> \<open>\<open>errors.Wrapf(err, msg)\<close>\<close>

section \<open>The ECS parameter document\<close>

type_synonym int64 = int

text \<open>
  \<open>ecs.HealthCheck\<close> of the SDK: every field is a pointer (\<open>None\<close> is \<open>nil\<close>), the
  command a slice of string pointers (\<open>[]\<close> is the nil slice).
\<close>

record HealthCheck =
  Command :: "string option list"
  Interval :: "int64 option"
  Retries :: "int64 option"
  StartPeriod :: "int64 option"
  Timeout :: "int64 option"

record ContainerDef =
  Essential :: bool
  Cpu :: int64
  Memory :: int64
  MemoryReservation :: int64
  HealthCheck :: HealthCheck

record TaskSize =
  ts_Cpu :: string
  ts_Memory :: string

record EcsTaskDef =
  NetworkMode :: string
  TaskRoleArn :: string
  ContainerDefinitions :: "(string \<times> ContainerDef) list"
  ExecutionRole :: string
  TaskSize :: TaskSize

record AwsVpcConfiguration =
  Subnets :: "string list"
  SecurityGroups :: "string list"
  AssignPublicIp :: string

record NetworkConfiguration =
  AwsVpcConfiguration :: AwsVpcConfiguration

record RunParams =
  NetworkConfiguration :: NetworkConfiguration

record ECSParams =
  Version :: string
  TaskDefinition :: EcsTaskDef
  RunParams :: RunParams

text \<open>The SDK's request types the extractor fills in.\<close>

record ecs_AwsVpcConfiguration =
  ecs_Subnets :: "string option list"
  ecs_SecurityGroups :: "string option list"
  ecs_AssignPublicIp :: "string option"

record ecs_NetworkConfiguration =
  ecs_AwsvpcConfiguration :: "ecs_AwsVpcConfiguration option"

text \<open>\<open>aws.String\<close> and \<open>aws.StringSlice\<close>: a pointer to a copy of each string.\<close>

definition aws_String :: "string \<Rightarrow> string option" where
  "aws_String s = Some s"

definition aws_StringSlice :: "string list \<Rightarrow> string option list" where
  "aws_StringSlice ss = map aws_String ss"

section \<open>Health check parsing\<close>

subsection \<open>The decoded YAML node\<close>

text \<open>
  \<open>healthCheckFormat\<close>, the struct the health check node is first decoded into.
  \<open>Stringorslice\<close> is a slice of strings.
\<close>

record healthCheckFormat =
  raw_Test :: "string list"
  raw_Command :: "string list"
  raw_Timeout :: string
  raw_Interval :: string
  raw_Retries :: int64
  raw_StartPeriod :: string

text \<open>
  The health check node of the document, as far as it is well typed for
  \<open>healthCheckFormat\<close>: every key is absent (\<open>None\<close>) or present; \<open>test\<close> and
  \<open>command\<close> are written as one string or as a sequence of strings.
\<close>

datatype stringorslice_node = ScalarString string | Sequence "string list"

record healthCheckNode =
  test_node :: "stringorslice_node option"
  command_node :: "stringorslice_node option"
  timeout_node :: "string option"
  interval_node :: "string option"
  retries_node :: "int64 option"
  start_period_node :: "string option"

text \<open>
  The decoding the YAML library does (\<open>yaml.v2\<close> for the struct, libcompose's
  \<open>Stringorslice.UnmarshalYAML\<close> for the two union fields; neither is code of this
  repository): a key that is present overwrites the field of the struct handed in, an
  absent key leaves it as it was; a string decodes into the one-element slice holding
  it, a sequence into the slice of its elements.
\<close>

fun Stringorslice_UnmarshalYAML :: "stringorslice_node \<Rightarrow> string list" where
  "Stringorslice_UnmarshalYAML (ScalarString s) = [s]"
| "Stringorslice_UnmarshalYAML (Sequence ss) = ss"

definition decode_field :: "('a \<Rightarrow> 'b) \<Rightarrow> 'a option \<Rightarrow> 'b \<Rightarrow> 'b" where
  "decode_field dec node old = (case node of None \<Rightarrow> old | Some v \<Rightarrow> dec v)"

definition unmarshal_node :: "healthCheckNode \<Rightarrow> healthCheckFormat \<Rightarrow> error + healthCheckFormat" where
  "unmarshal_node n out =
     Inr \<lparr>raw_Test = decode_field Stringorslice_UnmarshalYAML (test_node n) (raw_Test out),
          raw_Command = decode_field Stringorslice_UnmarshalYAML (command_node n) (raw_Command out),
          raw_Timeout = decode_field id (timeout_node n) (raw_Timeout out),
          raw_Interval = decode_field id (interval_node n) (raw_Interval out),
          raw_Retries = decode_field id (retries_node n) (raw_Retries out),
          raw_StartPeriod = decode_field id (start_period_node n) (raw_StartPeriod out)\<rparr>"

subsection \<open>The standard library's parsers\<close>

text \<open>
  \<open>int64\<close> arithmetic is written over \<open>int\<close> with the wrap-around made explicit.
\<close>

definition maxInt64 :: int where
  "maxInt64 = 2 ^ 63 - 1"

definition wrap64 :: "int \<Rightarrow> int" where
  "wrap64 y = (y + 2 ^ 63) mod 2 ^ 64 - 2 ^ 63"

text \<open>
  A byte between \<open>'0'\<close> (48) and \<open>'9'\<close> (57) is a digit, of value \<open>c - '0'\<close>.
\<close>

definition digitVal :: "char \<Rightarrow> int option" where
  "digitVal c =
     (let b = (of_char c :: nat) in
      if b < 48 \<or> b > 57 then None else Some (int b - 48))"

definition isDigit :: "char \<Rightarrow> bool" where
  "isDigit c = (digitVal c \<noteq> None)"

text \<open>
  \<open>time.leadingInt\<close>: the leading digits of the string as an \<open>int64\<close> and the rest
  of the string; \<open>None\<close> is its overflow error. The second argument is the value read
  so far.
\<close>

fun leadingInt :: "string \<Rightarrow> int \<Rightarrow> (int \<times> string) option" where
  "leadingInt [] x = Some (x, [])"
| "leadingInt (c # s) x =
     (case digitVal c of
        None \<Rightarrow> Some (x, c # s)
      | Some dv \<Rightarrow>
          if x > maxInt64 div 10 then None
          else if wrap64 (x * 10 + dv) < 0 then None
          else leadingInt s (wrap64 (x * 10 + dv)))"

text \<open>
  \<open>time.leadingFraction\<close>: the digits after the point as a numerator and a power of
  ten; digits past the capacity of \<open>int64\<close> are read and dropped.
\<close>

fun leadingFraction :: "string \<Rightarrow> int \<Rightarrow> int \<Rightarrow> bool \<Rightarrow> int \<times> int \<times> string" where
  "leadingFraction [] x scale overflow = (x, scale, [])"
| "leadingFraction (c # s) x scale overflow =
     (case digitVal c of
        None \<Rightarrow> (x, scale, c # s)
      | Some dv \<Rightarrow>
          if overflow then leadingFraction s x scale overflow
          else if x > maxInt64 div 10 then leadingFraction s x scale True
          else if wrap64 (x * 10 + dv) < 0 then leadingFraction s x scale True
          else leadingFraction s (wrap64 (x * 10 + dv)) (scale * 10) overflow)"

text \<open>\<open>time.unitMap\<close>, nanoseconds per unit; the two micro signs are in UTF-8.\<close>

definition unitMap :: "string \<Rightarrow> int option" where
  "unitMap u =
     (if u = ''ns'' then Some 1
      else if u = ''us'' then Some 1000
      else if u = [CHR 0xC2, CHR 0xB5, CHR ''s''] then Some 1000
      else if u = [CHR 0xCE, CHR 0xBC, CHR ''s''] then Some 1000
      else if u = ''ms'' then Some 1000000
      else if u = ''s'' then Some 1000000000
      else if u = ''m'' then Some 60000000000
      else if u = ''h'' then Some 3600000000000
      else None)"

definition isUnitChar :: "char \<Rightarrow> bool" where
  "isUnitChar c = (\<not> (c = CHR ''.'' \<or> isDigit c))"

text \<open>
  The \<open>float64\<close> arithmetic of the fraction. A positive \<open>float64\<close> is a significand
  and a binary exponent, \<open>(m, e)\<close> for \<open>m * 2 ^ e\<close>; every operation rounds its exact
  result to 53 bits, ties to the even significand. The values met here are far from
  the subnormal range and from overflow, which are left out.
\<close>

type_synonym float64 = "int \<times> int"

function bits :: "int \<Rightarrow> int" where
  "bits n = (if n \<le> 0 then 0 else 1 + bits (n div 2))"
  by pat_completeness auto
termination
  by (relation "measure nat") auto

declare bits.simps [simp del]

definition round_half_even :: "int \<Rightarrow> int \<Rightarrow> int" where
  "round_half_even num den =
     (if 2 * (num mod den) < den then num div den
      else if den < 2 * (num mod den) then num div den + 1
      else if even (num div den) then num div den
      else num div den + 1)"

text \<open>The \<open>float64\<close> nearest to the quotient of two positive integers.\<close>

definition float64_round :: "int \<Rightarrow> int \<Rightarrow> float64" where
  "float64_round p q =
     (if p \<le> 0 then (0, 0)
      else
        let d = bits p - bits q;
            lg = (if q * 2 ^ nat d \<le> p * 2 ^ nat (- d) then d else d - 1);
            k = lg - 52
        in (round_half_even (p * 2 ^ nat (- k)) (q * 2 ^ nat k), k))"

definition float64_of_int64 :: "int \<Rightarrow> float64" where
  "float64_of_int64 n = float64_round n 1"

definition float64_div :: "float64 \<Rightarrow> float64 \<Rightarrow> float64" where
  "float64_div x y =
     float64_round (fst x * 2 ^ nat (snd x - snd y)) (fst y * 2 ^ nat (snd y - snd x))"

definition float64_mul :: "float64 \<Rightarrow> float64 \<Rightarrow> float64" where
  "float64_mul x y =
     float64_round (fst x * fst y * 2 ^ nat (snd x + snd y)) (2 ^ nat (- (snd x + snd y)))"

text \<open>\<open>int64(x)\<close> for a \<open>float64\<close> that is not negative: the integer part.\<close>

definition int64_of_float64 :: "float64 \<Rightarrow> int" where
  "int64_of_float64 x = (fst x * 2 ^ nat (snd x)) div 2 ^ nat (- snd x)"

text \<open>\<open>int64(float64(f) * (float64(unit) / scale))\<close>, \<open>scale\<close> being a power of ten.\<close>

definition fractionNanos :: "int \<Rightarrow> int \<Rightarrow> int \<Rightarrow> int" where
  "fractionNanos f unit scale =
     int64_of_float64
       (float64_mul (float64_of_int64 f)
          (float64_div (float64_of_int64 unit) (float64_of_int64 scale)))"

text \<open>
  One round of the loop of \<open>time.ParseDuration\<close> on a non-empty string: a number, an
  optional fraction and a unit; the result is the value in nanoseconds and the rest of
  the string. The fraction is multiplied in \<open>float64\<close>, as Go does.
\<close>

definition parseSegment :: "string \<Rightarrow> string \<Rightarrow> error + (int \<times> string)" where
  "parseSegment orig s =
     (if \<not> (hd s = CHR ''.'' \<or> isDigit (hd s)) then Inl (DurationError orig)
      else
        case leadingInt s 0 of
          None \<Rightarrow> Inl (DurationError orig)
        | Some (v, s1) \<Rightarrow>
            let pre = (length s \<noteq> length s1);
                point = (s1 \<noteq> [] \<and> hd s1 = CHR ''.'');
                frac = (if point then leadingFraction (tl s1) 0 1 False else (0, 1, s1));
                f = fst frac;
                scale = fst (snd frac);
                s2 = snd (snd frac);
                post = (point \<and> length (tl s1) \<noteq> length s2)
            in
            if \<not> pre \<and> \<not> post then Inl (DurationError orig)
            else
              let u = takeWhile isUnitChar s2;
                  s3 = dropWhile isUnitChar s2
              in
              if u = [] then Inl (DurationError orig)
              else
                case unitMap u of
                  None \<Rightarrow> Inl (DurationError orig)
                | Some unit \<Rightarrow>
                    if v > maxInt64 div unit then Inl (DurationError orig)
                    else if f > 0 then
                      (if wrap64 (v * unit + fractionNanos f unit scale) < 0
                       then Inl (DurationError orig)
                       else Inr (wrap64 (v * unit + fractionNanos f unit scale), s3))
                    else Inr (v * unit, s3))"


lemma leadingInt_length:
  "leadingInt s x = Some (v, r) \<Longrightarrow> length r \<le> length s"
  by (induction s x rule: leadingInt.induct) (auto split: option.splits if_splits)

lemma leadingFraction_length:
  "length (snd (snd (leadingFraction s x scale overflow))) \<le> length s"
  by (induction s x scale overflow rule: leadingFraction.induct)
     (auto split: option.splits simp: le_SucI)

lemma dropWhile_shorter:
  "takeWhile P xs \<noteq> [] \<Longrightarrow> length (dropWhile P xs) < length xs"
  by (cases xs) (auto simp: less_Suc_eq_le length_dropWhile_le split: if_splits)

lemma parseSegment_shorter:
  assumes "parseSegment orig s = Inr (v, r)"
  shows "length r < length s"
proof -
  from assms obtain v0 s1 where li: "leadingInt s 0 = Some (v0, s1)"
    by (auto simp: parseSegment_def split: if_splits option.splits)
  define s2 where
    "s2 = snd (snd (if s1 \<noteq> [] \<and> hd s1 = CHR ''.''
                      then leadingFraction (tl s1) 0 1 False else (0, 1, s1)))"
  have s1_le: "length s1 \<le> length s"
    using li by (rule leadingInt_length)
  have "length s2 \<le> length s1"
    unfolding s2_def using leadingFraction_length [of "tl s1" 0 1 False] by auto
  moreover have "takeWhile isUnitChar s2 \<noteq> [] \<and> r = dropWhile isUnitChar s2"
    using assms li unfolding s2_def
    by (auto simp: parseSegment_def Let_def split: if_splits option.splits)
  ultimately show ?thesis
    using s1_le dropWhile_shorter [of isUnitChar s2] by simp
qed

text \<open>
  The loop of \<open>time.ParseDuration\<close>: \<open>d\<close> is the sum so far, \<open>s\<close> what is left to
  read.
\<close>

function parseDurationLoop :: "string \<Rightarrow> int \<Rightarrow> string \<Rightarrow> error + int" where
  "parseDurationLoop orig d s =
     (if s = [] then Inr d
      else
        case parseSegment orig s of
          Inl e \<Rightarrow> Inl e
        | Inr (v, s') \<Rightarrow>
            if wrap64 (d + v) < 0 then Inl (DurationError orig)
            else parseDurationLoop orig (wrap64 (d + v)) s')"
  by pat_completeness auto
termination
  by (relation "measure (\<lambda>(orig, d, s). length s)") (auto dest: parseSegment_shorter)

declare parseDurationLoop.simps [simp del]

text \<open>\<open>time.ParseDuration\<close>: a signed sequence of numbers with units, in nanoseconds.\<close>

definition ParseDuration :: "string \<Rightarrow> error + int" where
  "ParseDuration orig =
     (let signed = (orig \<noteq> [] \<and> (hd orig = CHR ''-'' \<or> hd orig = CHR ''+''));
          neg = (orig \<noteq> [] \<and> hd orig = CHR ''-'');
          s = (if signed then tl orig else orig)
      in
      if s = ''0'' then Inr 0
      else if s = [] then Inl (DurationError orig)
      else
        case parseDurationLoop orig 0 s of
          Inl e \<Rightarrow> Inl e
        | Inr d \<Rightarrow> Inr (if neg then - d else d))"

text \<open>
  \<open>strconv.ParseInt(s, 10, 64)\<close>: an optional sign and decimal digits, within the
  range of \<open>int64\<close>.
\<close>

fun decimal :: "string \<Rightarrow> int \<Rightarrow> int" where
  "decimal [] x = x"
| "decimal (c # s) x = decimal s (x * 10 + (case digitVal c of None \<Rightarrow> 0 | Some dv \<Rightarrow> dv))"

definition ParseInt :: "string \<Rightarrow> error + int64" where
  "ParseInt s0 =
     (let signed = (s0 \<noteq> [] \<and> (hd s0 = CHR ''-'' \<or> hd s0 = CHR ''+''));
          neg = (s0 \<noteq> [] \<and> hd s0 = CHR ''-'');
          s = (if signed then tl s0 else s0)
      in
      if s = [] \<or> \<not> list_all isDigit s then Inl (NumError s0)
      else if \<not> neg \<and> decimal s 0 > maxInt64 then Inl (NumError s0)
      else if neg \<and> decimal s 0 > maxInt64 + 1 then Inl (NumError s0)
      else Inr (if neg then - decimal s 0 else decimal s 0))"

subsection \<open>The time fields\<close>

text \<open>
  Modelled from the spec: \<open>adapter.ConvertToTimeInSeconds\<close> is code of this repository
  that is not among the source files. The spec has a duration string become seconds
  ("1m30s" is 90 seconds); the duration is in nanoseconds, a nil pointer stays nil, and
  the division is Go's, truncating towards zero.
\<close>

definition ConvertToTimeInSeconds :: "int option \<Rightarrow> int64 option" where
  "ConvertToTimeInSeconds d =
     (case d of
        None \<Rightarrow> None
      | Some ns \<Rightarrow>
          Some (if 0 \<le> ns then ns div 1000000000 else - ((- ns) div 1000000000)))"

definition parseHealthCheckTimeField :: "string \<Rightarrow> error + int64 option" where
  "parseHealthCheckTimeField field =
     (if field \<noteq> [] then
        (case ParseDuration field of
           Inr duration \<Rightarrow> Inr (ConvertToTimeInSeconds (Some duration))
         | Inl _ \<Rightarrow>
             (case ParseInt field of
                Inr val \<Rightarrow> Inr (Some val)
              | Inl _ \<Rightarrow> Inl (TimeFieldError field)))
      else Inr None)"

subsection \<open>The health check\<close>

definition SetCommand :: "string option list \<Rightarrow> HealthCheck \<Rightarrow> HealthCheck" where
  "SetCommand v h = h\<lparr>Command := v\<rparr>"

definition SetRetries :: "int64 \<Rightarrow> HealthCheck \<Rightarrow> HealthCheck" where
  "SetRetries v h = h\<lparr>Retries := Some v\<rparr>"

definition parseHealthCheckCommand :: "string list \<Rightarrow> HealthCheck \<Rightarrow> HealthCheck" where
  "parseHealthCheckCommand command healthCheck =
     (if length command = 1
      then SetCommand (aws_StringSlice [''CMD-SHELL'', command ! 0]) healthCheck
      else SetCommand (aws_StringSlice command) healthCheck)"

text \<open>
  \<open>HealthCheck.UnmarshalYAML\<close>. The argument is the decoder's callback, which fills
  the struct it is given or fails; the result is the error, or the value written to
  the receiver (which an error leaves untouched).
\<close>

definition HealthCheck_UnmarshalYAML ::
  "(healthCheckFormat \<Rightarrow> error + healthCheckFormat) \<Rightarrow> error + HealthCheck" where
  "HealthCheck_UnmarshalYAML unmarshal =
     (let healthCheck0 =
            \<lparr>Command = [], Interval = None, Retries = None,
             StartPeriod = None, Timeout = None\<rparr>;
          rawHealthCheck0 =
            \<lparr>raw_Test = [], raw_Command = [], raw_Timeout = [], raw_Interval = [],
             raw_Retries = 3, raw_StartPeriod = []\<rparr>
      in
      case unmarshal rawHealthCheck0 of
        Inl err \<Rightarrow> Inl err
      | Inr rawHealthCheck \<Rightarrow>
          if length (raw_Command rawHealthCheck) > 0 \<and> length (raw_Test rawHealthCheck) > 0
          then Inl HealthCheckConflict
          else
            let healthCheck1 =
                  (if length (raw_Command rawHealthCheck) > 0
                   then parseHealthCheckCommand (raw_Command rawHealthCheck) healthCheck0
                   else healthCheck0);
                healthCheck2 =
                  (if length (raw_Test rawHealthCheck) > 0
                   then parseHealthCheckCommand (raw_Test rawHealthCheck) healthCheck1
                   else healthCheck1);
                healthCheck3 = SetRetries (raw_Retries rawHealthCheck) healthCheck2
            in
            case parseHealthCheckTimeField (raw_Timeout rawHealthCheck) of
              Inl err \<Rightarrow> Inl err
            | Inr timeout \<Rightarrow>
                (case parseHealthCheckTimeField (raw_StartPeriod rawHealthCheck) of
                   Inl err \<Rightarrow> Inl err
                 | Inr startPeriod \<Rightarrow>
                     (case parseHealthCheckTimeField (raw_Interval rawHealthCheck) of
                        Inl err \<Rightarrow> Inl err
                      | Inr interval \<Rightarrow>
                          Inr (healthCheck3\<lparr>Timeout := timeout,
                                 StartPeriod := startPeriod,
                                 Interval := interval\<rparr>))))"

section \<open>Network configuration extraction\<close>

text \<open>
  The loop \<open>for i, s := range src { dst[i] = aws.String(s) }\<close> over a destination
  made by \<open>make([]*string, len(src))\<close>: \<open>i\<close> is the index of the next element.
\<close>

fun range_assign :: "nat \<Rightarrow> string list \<Rightarrow> string option list \<Rightarrow> string option list" where
  "range_assign i [] dst = dst"
| "range_assign i (s # ss) dst = range_assign (Suc i) ss (dst[i := aws_String s])"

definition make_slice :: "nat \<Rightarrow> string option list" where
  "make_slice n = replicate n None"

definition ConvertToECSNetworkConfiguration ::
  "ECSParams option \<Rightarrow> error + ecs_NetworkConfiguration option" where
  "ConvertToECSNetworkConfiguration ecsParams =
     (case ecsParams of
        None \<Rightarrow> Inr None
      | Some p \<Rightarrow>
          let networkMode = NetworkMode (TaskDefinition p) in
          if networkMode \<noteq> ''awsvpc'' then Inr None
          else
            let awsvpcConfig = AwsVpcConfiguration (NetworkConfiguration (RunParams p));
                subnets = Subnets awsvpcConfig
            in
            if length subnets < 1 then Inl SubnetRequired
            else
              let securityGroups = SecurityGroups awsvpcConfig;
                  assignPublicIp = AssignPublicIp awsvpcConfig;
                  ecsSubnets = range_assign 0 subnets (make_slice (length subnets));
                  ecsSecurityGroups =
                    range_assign 0 securityGroups (make_slice (length securityGroups));
                  ecsAwsVpcConfig =
                    \<lparr>ecs_Subnets = ecsSubnets,
                     ecs_SecurityGroups = ecsSecurityGroups,
                     ecs_AssignPublicIp = None\<rparr>;
                  ecsAwsVpcConfig' =
                    (if assignPublicIp \<noteq> ''''
                     then ecsAwsVpcConfig\<lparr>ecs_AssignPublicIp := aws_String assignPublicIp\<rparr>
                     else ecsAwsVpcConfig)
              in Inr (Some \<lparr>ecs_AwsvpcConfiguration = Some ecsAwsVpcConfig'\<rparr>))"


section \<open>Reading the parameter file\<close>

text \<open>
  What a file holds: \<open>Yaml v\<close> are the bytes that \<open>yaml.Marshal\<close> writes for the value
  \<open>v\<close> and that \<open>yaml.Unmarshal\<close> decodes to \<open>v\<close>; \<open>Raw s\<close> are any other bytes.
  A decoded value is Go's \<open>interface{}\<close>: nil, a scalar, a slice, or a
  \<open>map[interface{}]interface{}\<close>, written as an association list that stands for the
  map \<open>map_of\<close> makes of it.
\<close>

datatype iface =
    INil
  | IString string
  | IInt int
  | IBool bool
  | ISlice "iface list"
  | IMap "(iface \<times> iface) list"

type_synonym imap = "(iface \<times> iface) list"

datatype bytes = Yaml iface | Raw string

text \<open>
  The file system as far as the code touches it: regular files with their contents
  and permission bits, the directories made so far, and the failures the operating
  system may answer a call with (a read of a given path, a \<open>mkdir\<close>, a \<open>chmod\<close>, a
  write), each \<open>None\<close> when the call goes through.
\<close>

record inode =
  data :: bytes
  perm :: nat

record filesystem =
  files :: "string \<rightharpoonup> inode"
  dirs :: "string list"
  read_err :: "string \<Rightarrow> error option"
  mkdir_err :: "error option"
  chmod_err :: "error option"
  write_err :: "error option"

definition os_Stat :: "filesystem \<Rightarrow> string \<Rightarrow> error option" where
  "os_Stat fs path =
     (if files fs path = None \<and> path \<notin> set (dirs fs) then Some (NotExist path) else None)"

definition ioutil_ReadFile :: "filesystem \<Rightarrow> string \<Rightarrow> error + bytes" where
  "ioutil_ReadFile fs path =
     (case read_err fs path of
        Some e \<Rightarrow> Inl e
      | None \<Rightarrow>
          (case files fs path of
             None \<Rightarrow> Inl (NotExist path)
           | Some f \<Rightarrow> Inr (data f)))"

definition os_MkdirAll :: "filesystem \<Rightarrow> string \<Rightarrow> nat \<Rightarrow> error option \<times> filesystem" where
  "os_MkdirAll fs path mode =
     (if path \<in> set (dirs fs) then (None, fs)
      else
        case mkdir_err fs of
          Some e \<Rightarrow> (Some e, fs)
        | None \<Rightarrow> (None, fs\<lparr>dirs := path # dirs fs\<rparr>))"

definition os_Chmod :: "filesystem \<Rightarrow> string \<Rightarrow> nat \<Rightarrow> error option \<times> filesystem" where
  "os_Chmod fs path mode =
     (case chmod_err fs of
        Some e \<Rightarrow> (Some e, fs)
      | None \<Rightarrow>
          (case files fs path of
             None \<Rightarrow> (Some (NotExist path), fs)
           | Some f \<Rightarrow> (None, fs\<lparr>files := (files fs)(path \<mapsto> f\<lparr>perm := mode\<rparr>)\<rparr>)))"

text \<open>
  \<open>ioutil.WriteFile\<close> replaces the contents; the permission bits are for a file it
  creates. A write that fails is taken to fail before the file is touched.
\<close>

definition ioutil_WriteFile ::
  "filesystem \<Rightarrow> string \<Rightarrow> bytes \<Rightarrow> nat \<Rightarrow> error option \<times> filesystem" where
  "ioutil_WriteFile fs path dat mode =
     (case write_err fs of
        Some e \<Rightarrow> (Some e, fs)
      | None \<Rightarrow>
          (case files fs path of
             None \<Rightarrow> (None, fs\<lparr>files := (files fs)(path \<mapsto> \<lparr>data = dat, perm = mode\<rparr>)\<rparr>)
           | Some f \<Rightarrow> (None, fs\<lparr>files := (files fs)(path \<mapsto> f\<lparr>data := dat\<rparr>)\<rparr>)))"

text \<open>
  The library calls of \<open>ReadECSParams\<close> that work on the text of the file:
  \<open>os.ExpandEnv\<close> under the environment of the process, and \<open>yaml.Unmarshal\<close> into
  an \<open>ECSParams\<close> (which runs the custom decoders of the container definitions and
  health checks on the nodes of the document).
\<close>

record textlib =
  os_ExpandEnv :: "bytes \<Rightarrow> bytes"
  yaml_Unmarshal_ECSParams :: "bytes \<Rightarrow> error + ECSParams"

definition ReadECSParams ::
  "textlib \<Rightarrow> filesystem \<Rightarrow> string \<Rightarrow> error + ECSParams option" where
  "ReadECSParams lib fs filename =
     (let defaultFilename = ''ecs-params.yml'';
          chosen =
            (if filename = [] then
               (if os_Stat fs defaultFilename = None then Some defaultFilename else None)
             else Some filename)
      in
      case chosen of
        None \<Rightarrow> Inr None
      | Some filename' \<Rightarrow>
          (case ioutil_ReadFile fs filename' of
             Inl err \<Rightarrow> Inl (Wrapf (''Error reading file '' @ filename') err)
           | Inr ecsParamsData \<Rightarrow>
               (case yaml_Unmarshal_ECSParams lib (os_ExpandEnv lib ecsParamsData) of
                  Inl err \<Rightarrow>
                    Inl (Wrapf (''Error unmarshalling yaml data from ECS params file: ''
                                @ filename') err)
                | Inr ecsParams \<Rightarrow> Inr (Some ecsParams))))"

section \<open>The configuration documents\<close>

subsection \<open>Maps and type assertions\<close>

text \<open>
  \<open>m[k]\<close> (nil for a missing key), the two-valued \<open>v, ok := m[k]\<close>, the assignment
  \<open>m[k] = v\<close>, and \<open>len(m)\<close>, the number of keys.
\<close>

definition index :: "imap \<Rightarrow> iface \<Rightarrow> iface" where
  "index m k = (case map_of m k of None \<Rightarrow> INil | Some v \<Rightarrow> v)"

definition present :: "imap \<Rightarrow> iface \<Rightarrow> bool" where
  "present m k = (map_of m k \<noteq> None)"

definition assign :: "imap \<Rightarrow> iface \<Rightarrow> iface \<Rightarrow> imap" where
  "assign m k v = AList.update k v m"

definition len :: "imap \<Rightarrow> nat" where
  "len m = length (remdups (map fst m))"

text \<open>
  The two-valued assertions \<open>s, ok := v.(string)\<close> and
  \<open>m, ok := v.(map[interface{}]interface{})\<close>: on failure the zero value and false.
\<close>

definition assert_string :: "iface \<Rightarrow> string \<times> bool" where
  "assert_string v = (case v of IString s \<Rightarrow> (s, True) | _ \<Rightarrow> ([], False))"

definition assert_map :: "iface \<Rightarrow> imap \<times> bool" where
  "assert_map v = (case v of IMap m \<Rightarrow> (m, True) | _ \<Rightarrow> ([], False))"

text \<open>
  A call either returns or panics. The one-valued assertion
  \<open>v.(map[interface{}]interface{})\<close> panics when \<open>v\<close> is not a map.
\<close>

datatype 'a outcome = Panic | Returns 'a

definition must_map :: "iface \<Rightarrow> imap outcome" where
  "must_map v = (case v of IMap m \<Rightarrow> Returns m | _ \<Rightarrow> Panic)"

text \<open>
  \<open>yaml.Unmarshal(dat, &m)\<close> for a map \<open>m\<close> that was just made: a mapping fills it, an
  empty document leaves it empty, anything else is an error of the decoder.
\<close>

definition yaml_Unmarshal :: "bytes \<Rightarrow> error + imap" where
  "yaml_Unmarshal dat =
     (case dat of
        Yaml (IMap m) \<Rightarrow> Inr m
      | Yaml INil \<Rightarrow> Inr []
      | Yaml _ \<Rightarrow> Inl (YamlError ''cannot unmarshal into map'')
      | Raw s \<Rightarrow> Inl (YamlError s))"

definition yaml_Marshal :: "imap \<Rightarrow> bytes" where
  "yaml_Marshal m = Yaml (IMap m)"

subsection \<open>Declarations of the package outside the source files\<close>

text \<open>
  Modelled from the spec: the key constants, the name of the legacy file, \<open>CliConfig\<close>
  and \<open>Destination\<close> are declared in files of package \<open>config\<close> that are not among the
  source files. The keys are those of the sample configuration in the comment on
  \<open>YamlReadWriter\<close>; \<open>CliConfig\<close> has the fields the resolver assigns, the zero value
  of each being the empty string.
\<close>

definition clusterKey :: string where "clusterKey = ''cluster''"
definition regionKey :: string where "regionKey = ''region''"
definition awsAccessKey :: string where "awsAccessKey = ''aws_access_key_id''"
definition awsSecretKey :: string where "awsSecretKey = ''aws_secret_access_key''"
definition composeProjectNamePrefixKey :: string where
  "composeProjectNamePrefixKey = ''compose-project-name-prefix''"
definition composeServiceNamePrefixKey :: string where
  "composeServiceNamePrefixKey = ''compose-service-name-prefix''"
definition cfnStackNamePrefixKey :: string where
  "cfnStackNamePrefixKey = ''cfn-stack-name-prefix''"
definition iniConfigFileName :: string where "iniConfigFileName = ''config''"

record CliConfig =
  Cluster :: string
  Region :: string
  AwsProfile :: string
  AwsAccessKey :: string
  AwsSecretKey :: string
  ComposeProjectNamePrefix :: string
  ComposeServiceNamePrefix :: string
  CFNStackNamePrefix :: string

record Destination =
  Path :: string
  Mode :: nat

definition new_CliConfig :: CliConfig where
  "new_CliConfig =
     \<lparr>Cluster = [], Region = [], AwsProfile = [], AwsAccessKey = [], AwsSecretKey = [],
      ComposeProjectNamePrefix = [], ComposeServiceNamePrefix = [],
      CFNStackNamePrefix = []\<rparr>"

subsection \<open>The reader and writer\<close>

definition clusterConfigFileName :: string where "clusterConfigFileName = ''config.yml''"
definition profileConfigFileName :: string where "profileConfigFileName = ''profile.yml''"
definition configFileMode :: nat where "configFileMode = 384"
  \<comment> \<open>octal 0600\<close>

record ProfileConfiguration =
  profileName :: string
  p_awsAccessKey :: string
  p_awsSecretKey :: string

record ClusterConfiguration =
  clusterName :: string
  c_cluster :: string
  c_region :: string

record YamlReadWriter =
  destination :: Destination

text \<open>\<open>filepath.Join\<close> of a directory and a file name.\<close>

definition filepath_Join :: "string \<Rightarrow> string \<Rightarrow> string" where
  "filepath_Join dir name = dir @ ''/'' @ name"

definition profileConfigPath :: "Destination \<Rightarrow> string" where
  "profileConfigPath dest = filepath_Join (Path dest) profileConfigFileName"

definition clusterConfigPath :: "Destination \<Rightarrow> string" where
  "clusterConfigPath dest = filepath_Join (Path dest) clusterConfigFileName"

definition iniConfigPath :: "Destination \<Rightarrow> string" where
  "iniConfigPath dest = filepath_Join (Path dest) iniConfigFileName"

subsection \<open>Resolution\<close>

text \<open>
  \<open>processProfileMap\<close>. The maps and the configuration object are passed by
  reference and written to as the function goes, so the model returns them as they
  stand when the function returns, with the error (\<open>None\<close> is nil). The inner
  assertion on \<open>profileMap["ecs_profiles"]\<close> is one-valued and panics.
\<close>

definition processProfileMap ::
  "string \<Rightarrow> imap \<Rightarrow> imap \<Rightarrow> CliConfig \<Rightarrow> (error option \<times> imap \<times> CliConfig) outcome" where
  "processProfileMap profileKey profileMap configMap cliConfig =
     (let dflt = assert_string (index profileMap (IString ''default''));
          profileKey' = (if profileKey = [] then fst dflt else profileKey)
      in
      if profileKey = [] \<and> \<not> snd dflt then Returns (Some ProfileFormatIssue, configMap, cliConfig)
      else
        case must_map (index profileMap (IString ''ecs_profiles'')) of
          Panic \<Rightarrow> Panic
        | Returns profiles \<Rightarrow>
            let entry = assert_map (index profiles (IString profileKey'));
                profile = fst entry
            in
            if \<not> snd entry then Returns (Some ProfileFormatIssue, configMap, cliConfig)
            else
              let configMap1 =
                    assign configMap (IString awsAccessKey) (index profile (IString awsAccessKey));
                  configMap2 =
                    assign configMap1 (IString awsSecretKey) (index profile (IString awsSecretKey));
                  access = assert_string (index profile (IString awsAccessKey));
                  cliConfig1 = cliConfig\<lparr>AwsAccessKey := fst access\<rparr>
              in
              if \<not> snd access then Returns (Some ProfileFormatIssue, configMap2, cliConfig1)
              else
                let secret = assert_string (index profile (IString awsSecretKey));
                    cliConfig2 = cliConfig1\<lparr>AwsSecretKey := fst secret\<rparr>
                in
                if \<not> snd secret then Returns (Some ProfileFormatIssue, configMap2, cliConfig2)
                else Returns (None, configMap2, cliConfig2))"

text \<open>
  One of the three prefix blocks of \<open>processClusterMap\<close>: when the key is in the
  entry, copy it to the configuration map and assign the field; fail when the value is
  not a string. The blocks differ in the key, the field and the error.
\<close>

definition prefix_block ::
  "string \<Rightarrow> (string \<Rightarrow> CliConfig \<Rightarrow> CliConfig) \<Rightarrow> error \<Rightarrow> imap \<Rightarrow>
   imap \<times> CliConfig \<Rightarrow> error option \<times> imap \<times> CliConfig" where
  "prefix_block key set_field err cluster st =
     (if present cluster (IString key) then
        let configMap' = assign (fst st) (IString key) (index cluster (IString key));
            prefix = assert_string (index cluster (IString key));
            cliConfig' = set_field (fst prefix) (snd st)
        in
        if \<not> snd prefix then (Some err, configMap', cliConfig')
        else (None, configMap', cliConfig')
      else (None, fst st, snd st))"

definition processClusterMap ::
  "string \<Rightarrow> imap \<Rightarrow> imap \<Rightarrow> CliConfig \<Rightarrow> (error option \<times> imap \<times> CliConfig) outcome" where
  "processClusterMap clusterConfigKey clusterMap configMap cliConfig =
     (let dflt = assert_string (index clusterMap (IString ''default''));
          clusterConfigKey' = (if clusterConfigKey = [] then fst dflt else clusterConfigKey)
      in
      if clusterConfigKey = [] \<and> \<not> snd dflt
      then Returns (Some ClusterFormatIssue, configMap, cliConfig)
      else
        case must_map (index clusterMap (IString ''clusters'')) of
          Panic \<Rightarrow> Panic
        | Returns clusters \<Rightarrow>
            let entry = assert_map (index clusters (IString clusterConfigKey'));
                cluster = fst entry
            in
            if \<not> snd entry then Returns (Some ClusterFormatIssue, configMap, cliConfig)
            else
              let configMap1 =
                    assign configMap (IString clusterKey) (index cluster (IString clusterKey));
                  configMap2 =
                    assign configMap1 (IString regionKey) (index cluster (IString regionKey));
                  name = assert_string (index cluster (IString clusterKey));
                  cliConfig1 = cliConfig\<lparr>Cluster := fst name\<rparr>
              in
              if \<not> snd name then Returns (Some ClusterFormatIssue, configMap2, cliConfig1)
              else
                let region = assert_string (index cluster (IString regionKey));
                    cliConfig2 = cliConfig1\<lparr>Region := fst region\<rparr>
                in
                if \<not> snd region then Returns (Some ClusterFormatIssue, configMap2, cliConfig2)
                else
                  let r1 = prefix_block composeProjectNamePrefixKey
                             (\<lambda>s c. c\<lparr>ComposeProjectNamePrefix := s\<rparr>)
                             ClusterFormatIssue cluster (configMap2, cliConfig2)
                  in
                  if fst r1 \<noteq> None then Returns r1
                  else
                    let r2 = prefix_block composeServiceNamePrefixKey
                               (\<lambda>s c. c\<lparr>ComposeServiceNamePrefix := s\<rparr>)
                               ClusterFormatIssue cluster (snd r1)
                    in
                    if fst r2 \<noteq> None then Returns r2
                    else
                      Returns (prefix_block cfnStackNamePrefixKey
                                 (\<lambda>s c. c\<lparr>CFNStackNamePrefix := s\<rparr>)
                                 ProfileClusterFormatIssue cluster (snd r2)))"

text \<open>
  \<open>GetConfigs\<close>. The legacy reader (\<open>NewIniReadWriter\<close> and its \<open>GetConfig\<close>) is not
  among the source files: \<open>iniGetConfig\<close> stands for the two calls, failing or
  returning the configuration and its map. The result is the triple the function
  returns, pointers and the map as options (\<open>None\<close> is nil). The errors of
  \<open>processProfileMap\<close> and \<open>processClusterMap\<close> are not looked at.
\<close>

definition GetConfigs ::
  "YamlReadWriter \<Rightarrow> (Destination \<Rightarrow> filesystem \<Rightarrow> error + CliConfig option \<times> imap option) \<Rightarrow>
   filesystem \<Rightarrow> string \<Rightarrow> string \<Rightarrow>
   (CliConfig option \<times> imap option \<times> error option) outcome" where
  "GetConfigs rdwr iniGetConfig fs clusterConfig profileConfig =
     (let cliConfig = new_CliConfig;
          configMap = [];
          iniPath = iniConfigPath (destination rdwr);
          profilePath = profileConfigPath (destination rdwr);
          clusterPath = clusterConfigPath (destination rdwr);
          err = os_Stat fs iniPath;
          yamlErr = os_Stat fs clusterPath
      in
      if err = None \<and> yamlErr \<noteq> None then
        (case iniGetConfig (destination rdwr) fs of
           Inl e \<Rightarrow> Returns (None, None, Some e)
         | Inr r \<Rightarrow> Returns (fst r, snd r, None))
      else
        case ioutil_ReadFile fs clusterPath of
          Inl e \<Rightarrow> Returns (None, None, Some e)
        | Inr dat \<Rightarrow>
            (case yaml_Unmarshal dat of
               Inl e \<Rightarrow> Returns (None, None, Some e)
             | Inr clusterMap \<Rightarrow>
                 (case ioutil_ReadFile fs profilePath of
                    Inl e \<Rightarrow> Returns (None, None, Some e)
                  | Inr dat' \<Rightarrow>
                      (case yaml_Unmarshal dat' of
                         Inl e \<Rightarrow> Returns (None, None, Some e)
                       | Inr profileMap \<Rightarrow>
                           (case processProfileMap profileConfig profileMap configMap cliConfig of
                              Panic \<Rightarrow> Panic
                            | Returns r1 \<Rightarrow>
                                (case processClusterMap clusterConfig clusterMap
                                        (fst (snd r1)) (snd (snd r1)) of
                                   Panic \<Rightarrow> Panic
                                 | Returns r2 \<Rightarrow>
                                     Returns (Some (snd (snd r2)), Some (fst (snd r2)),
                                              None)))))))"

subsection \<open>Writing\<close>

text \<open>
  \<open>saveToFile\<close>: make the directory, tighten the permissions of a file that is
  there, write the whole document. The error of \<open>yaml.Marshal\<close> is overwritten by
  that of the write. The warnings it logs are left out.
\<close>

definition saveToFile ::
  "YamlReadWriter \<Rightarrow> filesystem \<Rightarrow> string \<Rightarrow> imap \<Rightarrow> error option \<times> filesystem" where
  "saveToFile rdwr fs path config =
     (let destMode = Mode (destination rdwr);
          made = os_MkdirAll fs (Path (destination rdwr)) destMode
      in
      if fst made \<noteq> None then (fst made, snd made)
      else
        let changed =
              (if os_Stat (snd made) path = None
               then os_Chmod (snd made) path configFileMode
               else (None, snd made))
        in
        if fst changed \<noteq> None then (fst changed, snd changed)
        else
          let written = ioutil_WriteFile (snd changed) path (yaml_Marshal config) configFileMode
          in
          if fst written \<noteq> None then (fst written, snd written)
          else (None, snd written))"

text \<open>
  The four operations return their error and leave the file system as the second
  component. Each calls \<open>saveToFile\<close> as a statement: what it returns is dropped.
\<close>

definition SetDefaultProfile ::
  "YamlReadWriter \<Rightarrow> filesystem \<Rightarrow> string \<Rightarrow> error option \<times> filesystem" where
  "SetDefaultProfile rdwr fs profile =
     (let profilePath = profileConfigPath (destination rdwr) in
      case ioutil_ReadFile fs profilePath of
        Inl err \<Rightarrow> (Some err, fs)
      | Inr dat \<Rightarrow>
          (case yaml_Unmarshal dat of
             Inl err \<Rightarrow> (Some err, fs)
           | Inr profileMap \<Rightarrow>
               let profileMap' = assign profileMap (IString ''default'') (IString profile)
               in (None, snd (saveToFile rdwr fs profilePath profileMap'))))"

definition SetDefaultCluster ::
  "YamlReadWriter \<Rightarrow> filesystem \<Rightarrow> string \<Rightarrow> error option \<times> filesystem" where
  "SetDefaultCluster rdwr fs cluster =
     (let clusterPath = clusterConfigPath (destination rdwr) in
      case ioutil_ReadFile fs clusterPath of
        Inl err \<Rightarrow> (Some err, fs)
      | Inr dat \<Rightarrow>
          (case yaml_Unmarshal dat of
             Inl err \<Rightarrow> (Some err, fs)
           | Inr clusterMap \<Rightarrow>
               let clusterMap' = assign clusterMap (IString ''default'') (IString cluster)
               in (None, snd (saveToFile rdwr fs clusterPath clusterMap'))))"

text \<open>
  \<open>SaveProfile\<close> and \<open>SaveCluster\<close>. In the source \<open>profiles\<close> is the very map that
  \<open>profileMap["ecs_profiles"]\<close> holds, so the assignment \<open>profiles[name] = newProfile\<close>
  changes the document; no other reference to that map exists. The model stores the
  changed map back under its key.
\<close>

definition SaveProfile ::
  "YamlReadWriter \<Rightarrow> filesystem \<Rightarrow> ProfileConfiguration \<Rightarrow> error option \<times> filesystem" where
  "SaveProfile rdwr fs profile =
     (let profilePath = profileConfigPath (destination rdwr) in
      case ioutil_ReadFile fs profilePath of
        Inl err \<Rightarrow> (Some err, fs)
      | Inr dat \<Rightarrow>
          (case yaml_Unmarshal dat of
             Inl err \<Rightarrow> (Some err, fs)
           | Inr profileMap \<Rightarrow>
               let container = assert_map (index profileMap (IString ''ecs_profiles''));
                   profiles = fst container
               in
               if \<not> snd container then (Some ProfileFormatIssue, fs)
               else
                 let profileMap1 =
                       (if len profiles = 0
                        then assign profileMap (IString ''default'')
                               (IString (profileName profile))
                        else profileMap);
                     newProfile0 = assign [] (IString awsAccessKey)
                                     (IString (p_awsAccessKey profile));
                     newProfile = assign newProfile0 (IString awsSecretKey)
                                    (IString (p_awsSecretKey profile));
                     profiles' = assign profiles (IString (profileName profile))
                                   (IMap newProfile);
                     profileMap2 = assign profileMap1 (IString ''ecs_profiles'')
                                     (IMap profiles')
                 in (None, snd (saveToFile rdwr fs profilePath profileMap2))))"

definition SaveCluster ::
  "YamlReadWriter \<Rightarrow> filesystem \<Rightarrow> ClusterConfiguration \<Rightarrow> error option \<times> filesystem" where
  "SaveCluster rdwr fs cluster =
     (let clusterPath = clusterConfigPath (destination rdwr) in
      case ioutil_ReadFile fs clusterPath of
        Inl err \<Rightarrow> (Some err, fs)
      | Inr dat \<Rightarrow>
          (case yaml_Unmarshal dat of
             Inl err \<Rightarrow> (Some err, fs)
           | Inr clusterMap \<Rightarrow>
               let container = assert_map (index clusterMap (IString ''clusters''));
                   clusters = fst container
               in
               if \<not> snd container then (Some ClusterFormatIssue, fs)
               else
                 let clusterMap1 =
                       (if len clusters = 0
                        then assign clusterMap (IString ''default'')
                               (IString (clusterName cluster))
                        else clusterMap);
                     newCluster0 = assign [] (IString clusterKey) (IString (c_cluster cluster));
                     newCluster = assign newCluster0 (IString regionKey)
                                    (IString (c_region cluster));
                     clusters' = assign clusters (IString (clusterName cluster))
                                   (IMap newCluster);
                     clusterMap2 = assign clusterMap1 (IString ''clusters'') (IMap clusters')
                 in (None, snd (saveToFile rdwr fs clusterPath clusterMap2))))"

text \<open>
  The calls of \<open>saveToFile\<close> that change the file system all go through: the
  directory is there or can be made, and neither \<open>chmod\<close> nor the write fails.
\<close>

definition writes_succeed :: "YamlReadWriter \<Rightarrow> filesystem \<Rightarrow> bool" where
  "writes_succeed rdwr fs =
     ((Path (destination rdwr) \<in> set (dirs fs) \<or> mkdir_err fs = None) \<and>
      chmod_err fs = None \<and> write_err fs = None)"

section \<open>Properties of the health check parsing\<close>

subsection \<open>Time fields\<close>

lemma leadingInt_digits:
  "list_all isDigit s \<Longrightarrow> leadingInt s x = None \<or> (\<exists>v. leadingInt s x = Some (v, []))"
  by (induction s x rule: leadingInt.induct) (auto simp: isDigit_def split: option.splits)

lemma digit_not_sign:
  "isDigit c \<Longrightarrow> c \<noteq> CHR ''-'' \<and> c \<noteq> CHR ''+'' \<and> c \<noteq> CHR ''.''"
  by (auto simp: isDigit_def digitVal_def)

lemma parseSegment_digits:
  assumes "list_all isDigit s" "s \<noteq> []"
  shows "\<exists>e. parseSegment orig s = Inl e"
proof -
  from assms have hd: "isDigit (hd s)" by (cases s) auto
  from leadingInt_digits [OF assms(1), of 0] show ?thesis
  proof
    assume "leadingInt s 0 = None"
    then show ?thesis by (simp add: parseSegment_def)
  next
    assume "\<exists>v. leadingInt s 0 = Some (v, [])"
    then obtain v where "leadingInt s 0 = Some (v, [])" ..
    then show ?thesis using hd assms(2) by (simp add: parseSegment_def)
  qed
qed

text \<open>A string of digits other than "0" has no unit: it is not a duration.\<close>

lemma ParseDuration_digits:
  assumes "list_all isDigit s" "s \<noteq> []" "s \<noteq> ''0''"
  shows "\<exists>e. ParseDuration s = Inl e"
proof -
  from assms have hd: "isDigit (hd s)" by (cases s) auto
  obtain e where "parseSegment s s = Inl e"
    using parseSegment_digits [OF assms(1,2)] by blast
  then have "parseDurationLoop s 0 s = Inl e"
    using assms(2) by (simp add: parseDurationLoop.simps)
  then show ?thesis
    using assms(2,3) digit_not_sign [OF hd] by (simp add: ParseDuration_def)
qed

lemma ParseInt_digits:
  assumes "list_all isDigit s" "s \<noteq> []" "decimal s 0 \<le> maxInt64"
  shows "ParseInt s = Inr (decimal s 0)"
proof -
  from assms have hd: "isDigit (hd s)" by (cases s) auto
  show ?thesis
    using assms digit_not_sign [OF hd] by (simp add: ParseInt_def)
qed

text \<open>
  Every non-empty string of digits whose value fits \<open>int64\<close> is read as that number
  of seconds.
\<close>

lemma parseHealthCheckTimeField_digits:
  assumes "list_all isDigit s" "s \<noteq> []" "decimal s 0 \<le> maxInt64"
  shows "parseHealthCheckTimeField s = Inr (Some (decimal s 0))"
proof (cases "s = ''0''")
  case True
  have "parseHealthCheckTimeField ''0'' = Inr (Some (decimal ''0'' 0))"
    by code_simp
  with True show ?thesis by simp
next
  case False
  then obtain e where "ParseDuration s = Inl e"
    using ParseDuration_digits [OF assms(1,2)] by blast
  then show ?thesis
    using assms(2) ParseInt_digits [OF assms] by (simp add: parseHealthCheckTimeField_def)
qed

text \<open>
  Fractions go through \<open>float64\<close>: sixteen nines after the point round up to a
  whole second, and an hour and a half is 5400 seconds.
\<close>

lemma ParseDuration_fraction_examples:
  "ParseDuration ''0.9999999999999999s'' = Inr 1000000000
   \<and> parseHealthCheckTimeField ''1.5h'' = Inr (Some 5400)"
  by code_simp

text \<open>
  C6. A non-empty time field is read as a duration string first, then as a plain
  integer of seconds, and is an error only when it is neither; "1m30s" is 90 seconds,
  "45" is 45 seconds, "abc" is an error; the empty (absent) field is nil with no
  error.
\<close>

theorem parseHealthCheckTimeField_duration_then_integer:
  "parseHealthCheckTimeField field =
     (if field = [] then Inr None
      else
        case ParseDuration field of
          Inr d \<Rightarrow> Inr (ConvertToTimeInSeconds (Some d))
        | Inl e \<Rightarrow>
            (case ParseInt field of
               Inr v \<Rightarrow> Inr (Some v)
             | Inl e' \<Rightarrow> Inl (TimeFieldError field)))
   \<and> parseHealthCheckTimeField ''1m30s'' = Inr (Some 90)
   \<and> parseHealthCheckTimeField ''45'' = Inr (Some 45)
   \<and> parseHealthCheckTimeField ''abc'' = Inl (TimeFieldError ''abc'')
   \<and> parseHealthCheckTimeField [] = Inr None"
proof -
  have "parseHealthCheckTimeField ''1m30s'' = Inr (Some 90)"
    by code_simp
  moreover have "parseHealthCheckTimeField ''45'' = Inr (Some 45)"
    by code_simp
  moreover have "parseHealthCheckTimeField ''abc'' = Inl (TimeFieldError ''abc'')"
    by code_simp
  ultimately show ?thesis
    by (simp add: parseHealthCheckTimeField_def)
qed

subsection \<open>The command and the retries\<close>

text \<open>What a successful parse says about the struct the decoder filled in.\<close>

lemma HealthCheck_UnmarshalYAML_Inr:
  assumes "HealthCheck_UnmarshalYAML unmarshal = Inr h"
  obtains raw where
    "unmarshal \<lparr>raw_Test = [], raw_Command = [], raw_Timeout = [], raw_Interval = [],
       raw_Retries = 3, raw_StartPeriod = []\<rparr> = Inr raw"
    "raw_Command raw = [] \<or> raw_Test raw = []"
    "Retries h = Some (raw_Retries raw)"
    "Command h =
       (if raw_Test raw \<noteq> [] then Command (parseHealthCheckCommand (raw_Test raw) h)
        else if raw_Command raw \<noteq> [] then Command (parseHealthCheckCommand (raw_Command raw) h)
        else [])"
    "parseHealthCheckTimeField (raw_Timeout raw) = Inr (Timeout h)"
    "parseHealthCheckTimeField (raw_StartPeriod raw) = Inr (StartPeriod h)"
    "parseHealthCheckTimeField (raw_Interval raw) = Inr (Interval h)"
  using assms
  unfolding HealthCheck_UnmarshalYAML_def Let_def
  by (auto split: sum.splits if_splits
      simp: parseHealthCheckCommand_def SetCommand_def SetRetries_def)

text \<open>
  C2, on the code. A \<open>command\<close> written as a sequence of one element, with no
  \<open>test\<close>, comes out wrapped in "CMD-SHELL" and not as that one-element sequence:
  \<open>parseHealthCheckCommand\<close> takes a slice of length one for a value that was written
  as a single string, which the decoded slice no longer tells.
\<close>

theorem single_element_sequence_is_wrapped:
  "HealthCheck_UnmarshalYAML
     (unmarshal_node \<lparr>test_node = None, command_node = Some (Sequence [''uptime'']),
        timeout_node = None, interval_node = None, retries_node = None,
        start_period_node = None\<rparr>)
   = Inr \<lparr>Command = [Some ''CMD-SHELL'', Some ''uptime''], Interval = None,
          Retries = Some 3, StartPeriod = None, Timeout = None\<rparr>
   \<and> [Some ''CMD-SHELL'', Some ''uptime''] \<noteq> aws_StringSlice [''uptime'']"
  by code_simp

text \<open>
  C3, as the claim has it, fails: a \<open>retries\<close> field that is present and zero gives
  zero retries, not 3.
\<close>

theorem retries_zero_stays_zero:
  "HealthCheck_UnmarshalYAML
     (unmarshal_node \<lparr>test_node = Some (ScalarString ''curl -f http://x''),
        command_node = None, timeout_node = None, interval_node = None,
        retries_node = Some 0, start_period_node = None\<rparr>)
   = Inr \<lparr>Command = [Some ''CMD-SHELL'', Some ''curl -f http://x''], Interval = None,
          Retries = Some 0, StartPeriod = None, Timeout = None\<rparr>
   \<and> Some (0::int) \<noteq> Some 3"
  by code_simp

text \<open>
  C3, amended. On a successful parse the retries are 3 when the \<open>retries\<close> field is
  absent, and the value of the field when it is present, zero included.
\<close>

theorem retries_default_when_absent:
  "HealthCheck_UnmarshalYAML (unmarshal_node n) = Inr h \<Longrightarrow>
   Retries h = Some (case retries_node n of None \<Rightarrow> 3 | Some r \<Rightarrow> r)"
  by (erule HealthCheck_UnmarshalYAML_Inr)
     (auto simp: unmarshal_node_def decode_field_def split: option.splits)

theorem retries_default_when_absent_witness:
  "HealthCheck_UnmarshalYAML
     (unmarshal_node \<lparr>test_node = Some (ScalarString ''curl -f http://x''),
        command_node = None, timeout_node = None, interval_node = None,
        retries_node = None, start_period_node = None\<rparr>)
   = Inr \<lparr>Command = [Some ''CMD-SHELL'', Some ''curl -f http://x''], Interval = None,
          Retries = Some 3, StartPeriod = None, Timeout = None\<rparr>
   \<and> Retries \<lparr>Command = [Some ''CMD-SHELL'', Some ''curl -f http://x''], Interval = None,
          Retries = Some 3, StartPeriod = None, Timeout = None\<rparr> = Some 3"
proof -
  let ?n = "\<lparr>test_node = Some (ScalarString ''curl -f http://x''),
        command_node = None, timeout_node = None, interval_node = None,
        retries_node = None, start_period_node = None\<rparr>"
  have run: "HealthCheck_UnmarshalYAML (unmarshal_node ?n)
      = Inr \<lparr>Command = [Some ''CMD-SHELL'', Some ''curl -f http://x''], Interval = None,
          Retries = Some 3, StartPeriod = None, Timeout = None\<rparr>"
    by code_simp
  from retries_default_when_absent [OF run] run show ?thesis
    by simp
qed

text \<open>
  C5. When \<open>command\<close> and \<open>test\<close> are both present as non-empty sequences, the
  parse fails with the conflict error and gives no health check.
\<close>

theorem command_and_test_conflict:
  "command_node n = Some (Sequence cs) \<Longrightarrow> cs \<noteq> [] \<Longrightarrow>
   test_node n = Some (Sequence ts) \<Longrightarrow> ts \<noteq> [] \<Longrightarrow>
   HealthCheck_UnmarshalYAML (unmarshal_node n) = Inl HealthCheckConflict"
  by (simp add: HealthCheck_UnmarshalYAML_def unmarshal_node_def decode_field_def)

theorem command_and_test_conflict_witness:
  "HealthCheck_UnmarshalYAML
     (unmarshal_node \<lparr>test_node = Some (Sequence [''c'']),
        command_node = Some (Sequence [''a'', ''b'']), timeout_node = None,
        interval_node = None, retries_node = None, start_period_node = None\<rparr>)
   = Inl HealthCheckConflict"
  using command_and_test_conflict
    [of "\<lparr>test_node = Some (Sequence [''c'']),
        command_node = Some (Sequence [''a'', ''b'']), timeout_node = None,
        interval_node = None, retries_node = None, start_period_node = None\<rparr>"
      "[''a'', ''b'']" "[''c'']"]
  by simp

section \<open>Properties of the network configuration extraction\<close>

lemma range_assign_take_drop:
  "i + length ss \<le> length dst \<Longrightarrow>
   range_assign i ss dst = take i dst @ map Some ss @ drop (i + length ss) dst"
proof (induction ss arbitrary: i dst)
  case Nil
  then show ?case by simp
next
  case (Cons s ss)
  have len: "Suc i + length ss \<le> length (dst[i := aws_String s])"
    using Cons.prems by simp
  have i_lt: "i < length dst"
    using Cons.prems by simp
  have "range_assign i (s # ss) dst = range_assign (Suc i) ss (dst[i := aws_String s])"
    by simp
  also have "\<dots> = take (Suc i) (dst[i := aws_String s]) @ map Some ss
                    @ drop (Suc i + length ss) (dst[i := aws_String s])"
    using Cons.IH [OF len] .
  also have "take (Suc i) (dst[i := aws_String s]) = take i dst @ [Some s]"
    using i_lt by (simp add: take_Suc_conv_app_nth aws_String_def)
  also have "drop (Suc i + length ss) (dst[i := aws_String s]) = drop (i + length (s # ss)) dst"
    by simp
  finally show ?case by simp
qed

lemma range_assign_make_slice:
  "range_assign 0 ss (make_slice (length ss)) = map Some ss"
  using range_assign_take_drop [of 0 ss "make_slice (length ss)"]
  by (simp add: make_slice_def)

text \<open>
  C10. When the parameter document pointer is nil, the extraction returns
  \<open>(nil, nil)\<close>: no configuration and no error.
\<close>

theorem ConvertToECSNetworkConfiguration_nil:
  "ConvertToECSNetworkConfiguration None = Inr None"
  by (simp add: ConvertToECSNetworkConfiguration_def)

text \<open>
  C7. For every parameter document the extraction returns \<open>(nil, nil)\<close> when the
  network mode is not "awsvpc"; under "awsvpc" it fails with the subnet error exactly
  when the subnet list is empty, and otherwise returns a configuration holding the
  document's subnets and security groups, each in its order, and the public-IP
  assignment only when the document's value is not the empty string.
\<close>

theorem ConvertToECSNetworkConfiguration_cases:
  "ConvertToECSNetworkConfiguration (Some p) =
     (if NetworkMode (TaskDefinition p) \<noteq> ''awsvpc'' then Inr None
      else if Subnets (AwsVpcConfiguration (NetworkConfiguration (RunParams p))) = []
      then Inl SubnetRequired
      else Inr (Some \<lparr>ecs_AwsvpcConfiguration = Some
        \<lparr>ecs_Subnets =
           map Some (Subnets (AwsVpcConfiguration (NetworkConfiguration (RunParams p)))),
         ecs_SecurityGroups =
           map Some (SecurityGroups (AwsVpcConfiguration (NetworkConfiguration (RunParams p)))),
         ecs_AssignPublicIp =
           (if AssignPublicIp (AwsVpcConfiguration (NetworkConfiguration (RunParams p))) = ''''
            then None
            else Some (AssignPublicIp
                   (AwsVpcConfiguration (NetworkConfiguration (RunParams p)))))\<rparr>\<rparr>))"
  by (simp add: ConvertToECSNetworkConfiguration_def Let_def range_assign_make_slice
      aws_String_def)


section \<open>Properties of the parameter file reader\<close>

text \<open>
  C9. Called with the empty path when the default file "ecs-params.yml" is not
  there, the loader returns \<open>(nil, nil)\<close>: no document and no error.
\<close>

theorem ReadECSParams_default_absent:
  "os_Stat fs ''ecs-params.yml'' \<noteq> None \<Longrightarrow> ReadECSParams lib fs [] = Inr None"
  by (auto simp: ReadECSParams_def Let_def)

theorem ReadECSParams_default_absent_witness:
  "os_Stat \<lparr>files = Map.empty, dirs = [], read_err = (\<lambda>p. None), mkdir_err = None,
            chmod_err = None, write_err = None\<rparr> ''ecs-params.yml''
     = Some (NotExist ''ecs-params.yml'')
   \<and> ReadECSParams
       \<lparr>os_ExpandEnv = (\<lambda>b. b), yaml_Unmarshal_ECSParams = (\<lambda>b. Inl (YamlError []))\<rparr>
       \<lparr>files = Map.empty, dirs = [], read_err = (\<lambda>p. None), mkdir_err = None,
        chmod_err = None, write_err = None\<rparr> [] = Inr None"
proof -
  let ?fs = "\<lparr>files = Map.empty, dirs = [], read_err = (\<lambda>p. None), mkdir_err = None,
            chmod_err = None, write_err = None\<rparr>"
  have absent: "os_Stat ?fs ''ecs-params.yml'' = Some (NotExist ''ecs-params.yml'')"
    by (simp add: os_Stat_def)
  then have "os_Stat ?fs ''ecs-params.yml'' \<noteq> None"
    by simp
  from ReadECSParams_default_absent [OF this] absent show ?thesis
    by simp
qed

section \<open>Properties of the configuration reader and writer\<close>

lemmas fs_defs = os_Stat_def ioutil_ReadFile_def os_MkdirAll_def os_Chmod_def
  ioutil_WriteFile_def yaml_Unmarshal_def yaml_Marshal_def

lemmas path_defs = iniConfigPath_def profileConfigPath_def clusterConfigPath_def
  filepath_Join_def iniConfigFileName_def clusterConfigFileName_def profileConfigFileName_def

lemmas map_defs = index_def present_def assign_def assert_string_def assert_map_def
  must_map_def len_def

lemmas key_defs = clusterKey_def regionKey_def awsAccessKey_def awsSecretKey_def
  composeProjectNamePrefixKey_def composeServiceNamePrefixKey_def cfnStackNamePrefixKey_def

lemma len_0_iff: "len m = 0 \<longleftrightarrow> m = []"
  by (simp add: len_def)

lemma dom_empty_iff_len: "dom (map_of m) = {} \<longleftrightarrow> len m = 0"
  by (cases m) (auto simp: len_0_iff)

lemma index_Some: "map_of m k = Some v \<Longrightarrow> index m k = v"
  by (simp add: index_def)

lemma map_of_assign: "map_of (assign m k v) = (map_of m)(k \<mapsto> v)"
  by (simp add: assign_def update_conv')

subsection \<open>Saving an entry\<close>

text \<open>\<open>saveToFile\<close> on a file that is there, when no call fails.\<close>

lemma saveToFile_ok:
  assumes "files fs path = Some f" and "writes_succeed rdwr fs"
  shows "\<exists>fs'. saveToFile rdwr fs path config = (None, fs') \<and>
      files fs' path = Some \<lparr>data = Yaml (IMap config), perm = configFileMode\<rparr>"
  using assms
  by (auto simp: saveToFile_def writes_succeed_def Let_def fs_defs split: option.splits)

lemma SaveProfile_document:
  assumes rd: "ioutil_ReadFile fs (profileConfigPath (destination rdwr)) = Inr dat"
    and un: "yaml_Unmarshal dat = Inr profileMap"
    and co: "map_of profileMap (IString ''ecs_profiles'') = Some (IMap profiles)"
    and ok: "writes_succeed rdwr fs"
  shows "\<exists>fs' profileMap' profiles'.
      SaveProfile rdwr fs profile = (None, fs') \<and>
      map_option data (files fs' (profileConfigPath (destination rdwr)))
        = Some (Yaml (IMap profileMap')) \<and>
      map_of profileMap' (IString ''ecs_profiles'') = Some (IMap profiles') \<and>
      map_of profiles' = (map_of profiles)(IString (profileName profile) \<mapsto>
         IMap [(IString awsAccessKey, IString (p_awsAccessKey profile)),
               (IString awsSecretKey, IString (p_awsSecretKey profile))]) \<and>
      map_of profileMap' (IString ''default'') =
        (if dom (map_of profiles) = {} then Some (IString (profileName profile))
         else map_of profileMap (IString ''default'')) \<and>
      (\<forall>k. k \<noteq> IString ''default'' \<and> k \<noteq> IString ''ecs_profiles'' \<longrightarrow>
           map_of profileMap' k = map_of profileMap k)"
proof -
  define name where "name = IString (profileName profile)"
  define newProfile where "newProfile =
         IMap [(IString awsAccessKey, IString (p_awsAccessKey profile)),
               (IString awsSecretKey, IString (p_awsSecretKey profile))]"
  define profiles' where "profiles' = assign profiles name newProfile"
  define profileMap1 where
    "profileMap1 = (if len profiles = 0 then assign profileMap (IString ''default'') name
                    else profileMap)"
  define profileMap2 where
    "profileMap2 = assign profileMap1 (IString ''ecs_profiles'') (IMap profiles')"
  from rd obtain f where f: "files fs (profileConfigPath (destination rdwr)) = Some f"
    by (auto simp: ioutil_ReadFile_def split: option.splits)
  from saveToFile_ok [OF f ok, of profileMap2] obtain fs' where
    fs': "saveToFile rdwr fs (profileConfigPath (destination rdwr)) profileMap2 = (None, fs')"
      "files fs' (profileConfigPath (destination rdwr))
         = Some \<lparr>data = Yaml (IMap profileMap2), perm = configFileMode\<rparr>"
    by blast
  have new: "assign (assign [] (IString awsAccessKey) (IString (p_awsAccessKey profile)))
       (IString awsSecretKey) (IString (p_awsSecretKey profile)) =
       [(IString awsAccessKey, IString (p_awsAccessKey profile)),
        (IString awsSecretKey, IString (p_awsSecretKey profile))]"
    by (simp add: assign_def key_defs)
  have run: "SaveProfile rdwr fs profile = (None, fs')"
    using rd un co fs'(1) new
    unfolding profileMap2_def profileMap1_def profiles'_def name_def newProfile_def
    by (cases "len profiles = 0")
       (simp_all add: SaveProfile_def Let_def index_Some assert_map_def)
  have "map_of profileMap2 (IString ''ecs_profiles'') = Some (IMap profiles')"
    by (simp add: profileMap2_def map_of_assign)
  moreover have "map_of profiles' = (map_of profiles)(name \<mapsto> newProfile)"
    by (simp add: profiles'_def map_of_assign)
  moreover have "map_of profileMap2 (IString ''default'') =
        (if dom (map_of profiles) = {} then Some name
         else map_of profileMap (IString ''default''))"
    unfolding dom_empty_iff_len by (simp add: profileMap2_def profileMap1_def map_of_assign)
  moreover have "\<forall>k. k \<noteq> IString ''default'' \<and> k \<noteq> IString ''ecs_profiles'' \<longrightarrow>
           map_of profileMap2 k = map_of profileMap k"
    by (simp add: profileMap2_def profileMap1_def map_of_assign)
  ultimately show ?thesis
    using run fs'(2) unfolding name_def newProfile_def by auto
qed

lemma SaveCluster_document:
  assumes rd: "ioutil_ReadFile fs (clusterConfigPath (destination rdwr)) = Inr dat"
    and un: "yaml_Unmarshal dat = Inr clusterMap"
    and co: "map_of clusterMap (IString ''clusters'') = Some (IMap clusters)"
    and ok: "writes_succeed rdwr fs"
  shows "\<exists>fs' clusterMap' clusters'.
      SaveCluster rdwr fs cluster = (None, fs') \<and>
      map_option data (files fs' (clusterConfigPath (destination rdwr)))
        = Some (Yaml (IMap clusterMap')) \<and>
      map_of clusterMap' (IString ''clusters'') = Some (IMap clusters') \<and>
      map_of clusters' = (map_of clusters)(IString (clusterName cluster) \<mapsto>
         IMap [(IString clusterKey, IString (c_cluster cluster)),
               (IString regionKey, IString (c_region cluster))]) \<and>
      map_of clusterMap' (IString ''default'') =
        (if dom (map_of clusters) = {} then Some (IString (clusterName cluster))
         else map_of clusterMap (IString ''default'')) \<and>
      (\<forall>k. k \<noteq> IString ''default'' \<and> k \<noteq> IString ''clusters'' \<longrightarrow>
           map_of clusterMap' k = map_of clusterMap k)"
proof -
  define name where "name = IString (clusterName cluster)"
  define newCluster where "newCluster =
         IMap [(IString clusterKey, IString (c_cluster cluster)),
               (IString regionKey, IString (c_region cluster))]"
  define clusters' where "clusters' = assign clusters name newCluster"
  define clusterMap1 where
    "clusterMap1 = (if len clusters = 0 then assign clusterMap (IString ''default'') name
                    else clusterMap)"
  define clusterMap2 where
    "clusterMap2 = assign clusterMap1 (IString ''clusters'') (IMap clusters')"
  from rd obtain f where f: "files fs (clusterConfigPath (destination rdwr)) = Some f"
    by (auto simp: ioutil_ReadFile_def split: option.splits)
  from saveToFile_ok [OF f ok, of clusterMap2] obtain fs' where
    fs': "saveToFile rdwr fs (clusterConfigPath (destination rdwr)) clusterMap2 = (None, fs')"
      "files fs' (clusterConfigPath (destination rdwr))
         = Some \<lparr>data = Yaml (IMap clusterMap2), perm = configFileMode\<rparr>"
    by blast
  have new: "assign (assign [] (IString clusterKey) (IString (c_cluster cluster)))
       (IString regionKey) (IString (c_region cluster)) =
       [(IString clusterKey, IString (c_cluster cluster)),
        (IString regionKey, IString (c_region cluster))]"
    by (simp add: assign_def key_defs)
  have run: "SaveCluster rdwr fs cluster = (None, fs')"
    using rd un co fs'(1) new
    unfolding clusterMap2_def clusterMap1_def clusters'_def name_def newCluster_def
    by (cases "len clusters = 0")
       (simp_all add: SaveCluster_def Let_def index_Some assert_map_def)
  have "map_of clusterMap2 (IString ''clusters'') = Some (IMap clusters')"
    by (simp add: clusterMap2_def map_of_assign)
  moreover have "map_of clusters' = (map_of clusters)(name \<mapsto> newCluster)"
    by (simp add: clusters'_def map_of_assign)
  moreover have "map_of clusterMap2 (IString ''default'') =
        (if dom (map_of clusters) = {} then Some name
         else map_of clusterMap (IString ''default''))"
    unfolding dom_empty_iff_len by (simp add: clusterMap2_def clusterMap1_def map_of_assign)
  moreover have "\<forall>k. k \<noteq> IString ''default'' \<and> k \<noteq> IString ''clusters'' \<longrightarrow>
           map_of clusterMap2 k = map_of clusterMap k"
    by (simp add: clusterMap2_def clusterMap1_def map_of_assign)
  ultimately show ?thesis
    using run fs'(2) unfolding name_def newCluster_def by auto
qed

text \<open>
  C8. For every document a save operation can read (the file is read, decodes to a
  mapping, and its container key holds a mapping), when the write goes through,
  \<open>SaveProfile\<close> and \<open>SaveCluster\<close> leave in the file the document in which the
  container maps the entry's name to the new entry and every other name as before, in
  which "default" is the new entry's name if the container was empty before and is
  as before otherwise, and in which every other key is as before.
\<close>

theorem save_inserts_entry_first_becomes_default:
  "(ioutil_ReadFile fs (profileConfigPath (destination rdwr)) = Inr pdat \<and>
    yaml_Unmarshal pdat = Inr profileMap \<and>
    map_of profileMap (IString ''ecs_profiles'') = Some (IMap profiles) \<and>
    writes_succeed rdwr fs \<longrightarrow>
    (\<exists>fs' profileMap' profiles'.
      SaveProfile rdwr fs profile = (None, fs') \<and>
      map_option data (files fs' (profileConfigPath (destination rdwr)))
        = Some (Yaml (IMap profileMap')) \<and>
      map_of profileMap' (IString ''ecs_profiles'') = Some (IMap profiles') \<and>
      map_of profiles' = (map_of profiles)(IString (profileName profile) \<mapsto>
         IMap [(IString awsAccessKey, IString (p_awsAccessKey profile)),
               (IString awsSecretKey, IString (p_awsSecretKey profile))]) \<and>
      map_of profileMap' (IString ''default'') =
        (if dom (map_of profiles) = {} then Some (IString (profileName profile))
         else map_of profileMap (IString ''default'')) \<and>
      (\<forall>k. k \<noteq> IString ''default'' \<and> k \<noteq> IString ''ecs_profiles'' \<longrightarrow>
           map_of profileMap' k = map_of profileMap k)))
   \<and>
   (ioutil_ReadFile fs (clusterConfigPath (destination rdwr)) = Inr cdat \<and>
    yaml_Unmarshal cdat = Inr clusterMap \<and>
    map_of clusterMap (IString ''clusters'') = Some (IMap clusters) \<and>
    writes_succeed rdwr fs \<longrightarrow>
    (\<exists>fs' clusterMap' clusters'.
      SaveCluster rdwr fs cluster = (None, fs') \<and>
      map_option data (files fs' (clusterConfigPath (destination rdwr)))
        = Some (Yaml (IMap clusterMap')) \<and>
      map_of clusterMap' (IString ''clusters'') = Some (IMap clusters') \<and>
      map_of clusters' = (map_of clusters)(IString (clusterName cluster) \<mapsto>
         IMap [(IString clusterKey, IString (c_cluster cluster)),
               (IString regionKey, IString (c_region cluster))]) \<and>
      map_of clusterMap' (IString ''default'') =
        (if dom (map_of clusters) = {} then Some (IString (clusterName cluster))
         else map_of clusterMap (IString ''default'')) \<and>
      (\<forall>k. k \<noteq> IString ''default'' \<and> k \<noteq> IString ''clusters'' \<longrightarrow>
           map_of clusterMap' k = map_of clusterMap k)))"
  using SaveProfile_document [of fs rdwr pdat profileMap profiles profile]
    SaveCluster_document [of fs rdwr cdat clusterMap clusters cluster]
  by blast

text \<open>
  The theorem at a directory whose profile document has an empty container and whose
  cluster document has one entry, which is the default.
\<close>

theorem save_inserts_entry_first_becomes_default_witness:
  "ioutil_ReadFile
     \<lparr>files = [''d/profile.yml'' \<mapsto>
                 \<lparr>data = Yaml (IMap [(IString ''ecs_profiles'', IMap [])]), perm = 420\<rparr>,
               ''d/config.yml'' \<mapsto>
                 \<lparr>data = Yaml (IMap [(IString ''default'', IString ''old''),
                    (IString ''clusters'', IMap [(IString ''old'',
                       IMap [(IString ''cluster'', IString ''c0''),
                             (IString ''region'', IString ''us-east-1'')])])]),
                  perm = 384\<rparr>],
      dirs = [''d''], read_err = (\<lambda>p. None), mkdir_err = None, chmod_err = None,
      write_err = None\<rparr>
     (profileConfigPath (destination \<lparr>destination = \<lparr>Path = ''d'', Mode = 448\<rparr>\<rparr>))
   = Inr (Yaml (IMap [(IString ''ecs_profiles'', IMap [])]))
   \<and> yaml_Unmarshal (Yaml (IMap [(IString ''ecs_profiles'', IMap [])]))
       = Inr [(IString ''ecs_profiles'', IMap [])]
   \<and> map_of [(IString ''ecs_profiles'', IMap [])] (IString ''ecs_profiles'') = Some (IMap [])
   \<and> writes_succeed \<lparr>destination = \<lparr>Path = ''d'', Mode = 448\<rparr>\<rparr>
     \<lparr>files = [''d/profile.yml'' \<mapsto>
                 \<lparr>data = Yaml (IMap [(IString ''ecs_profiles'', IMap [])]), perm = 420\<rparr>,
               ''d/config.yml'' \<mapsto>
                 \<lparr>data = Yaml (IMap [(IString ''default'', IString ''old''),
                    (IString ''clusters'', IMap [(IString ''old'',
                       IMap [(IString ''cluster'', IString ''c0''),
                             (IString ''region'', IString ''us-east-1'')])])]),
                  perm = 384\<rparr>],
      dirs = [''d''], read_err = (\<lambda>p. None), mkdir_err = None, chmod_err = None,
      write_err = None\<rparr>
   \<and> (\<exists>fs' profileMap' profiles'.
        SaveProfile \<lparr>destination = \<lparr>Path = ''d'', Mode = 448\<rparr>\<rparr>
          \<lparr>files = [''d/profile.yml'' \<mapsto>
                 \<lparr>data = Yaml (IMap [(IString ''ecs_profiles'', IMap [])]), perm = 420\<rparr>,
               ''d/config.yml'' \<mapsto>
                 \<lparr>data = Yaml (IMap [(IString ''default'', IString ''old''),
                    (IString ''clusters'', IMap [(IString ''old'',
                       IMap [(IString ''cluster'', IString ''c0''),
                             (IString ''region'', IString ''us-east-1'')])])]),
                  perm = 384\<rparr>],
           dirs = [''d''], read_err = (\<lambda>p. None), mkdir_err = None, chmod_err = None,
           write_err = None\<rparr>
          \<lparr>profileName = ''p1'', p_awsAccessKey = ''AKIA'', p_awsSecretKey = ''s3cr3t''\<rparr>
          = (None, fs') \<and>
        map_option data (files fs' ''d/profile.yml'') = Some (Yaml (IMap profileMap')) \<and>
        map_of profileMap' (IString ''ecs_profiles'') = Some (IMap profiles') \<and>
        map_of profiles' (IString ''p1'') =
          Some (IMap [(IString ''aws_access_key_id'', IString ''AKIA''),
                      (IString ''aws_secret_access_key'', IString ''s3cr3t'')]) \<and>
        map_of profileMap' (IString ''default'') = Some (IString ''p1''))
   \<and> (\<exists>fs' clusterMap' clusters'.
        SaveCluster \<lparr>destination = \<lparr>Path = ''d'', Mode = 448\<rparr>\<rparr>
          \<lparr>files = [''d/profile.yml'' \<mapsto>
                 \<lparr>data = Yaml (IMap [(IString ''ecs_profiles'', IMap [])]), perm = 420\<rparr>,
               ''d/config.yml'' \<mapsto>
                 \<lparr>data = Yaml (IMap [(IString ''default'', IString ''old''),
                    (IString ''clusters'', IMap [(IString ''old'',
                       IMap [(IString ''cluster'', IString ''c0''),
                             (IString ''region'', IString ''us-east-1'')])])]),
                  perm = 384\<rparr>],
           dirs = [''d''], read_err = (\<lambda>p. None), mkdir_err = None, chmod_err = None,
           write_err = None\<rparr>
          \<lparr>clusterName = ''new'', c_cluster = ''c1'', c_region = ''us-west-2''\<rparr>
          = (None, fs') \<and>
        map_option data (files fs' ''d/config.yml'') = Some (Yaml (IMap clusterMap')) \<and>
        map_of clusterMap' (IString ''clusters'') = Some (IMap clusters') \<and>
        map_of clusters' (IString ''new'') =
          Some (IMap [(IString ''cluster'', IString ''c1''),
                      (IString ''region'', IString ''us-west-2'')]) \<and>
        map_of clusters' (IString ''old'') =
          Some (IMap [(IString ''cluster'', IString ''c0''),
                      (IString ''region'', IString ''us-east-1'')]) \<and>
        map_of clusterMap' (IString ''default'') = Some (IString ''old''))"
proof -
  let ?rdwr = "\<lparr>destination = \<lparr>Path = ''d'', Mode = 448\<rparr>\<rparr>"
  let ?pdoc = "[(IString ''ecs_profiles'', IMap [])]"
  let ?old = "IMap [(IString ''cluster'', IString ''c0''),
                    (IString ''region'', IString ''us-east-1'')]"
  let ?clusters = "[(IString ''old'', ?old)]"
  let ?cdoc = "[(IString ''default'', IString ''old''), (IString ''clusters'', IMap ?clusters)]"
  let ?fs = "\<lparr>files = [''d/profile.yml'' \<mapsto> \<lparr>data = Yaml (IMap ?pdoc), perm = 420\<rparr>,
                         ''d/config.yml'' \<mapsto> \<lparr>data = Yaml (IMap ?cdoc), perm = 384\<rparr>],
      dirs = [''d''], read_err = (\<lambda>p. None), mkdir_err = None, chmod_err = None,
      write_err = None\<rparr>"
  let ?profile = "\<lparr>profileName = ''p1'', p_awsAccessKey = ''AKIA'', p_awsSecretKey = ''s3cr3t''\<rparr>"
  let ?cluster = "\<lparr>clusterName = ''new'', c_cluster = ''c1'', c_region = ''us-west-2''\<rparr>"
  have ppath: "profileConfigPath (destination ?rdwr) = ''d/profile.yml''"
    and cpath: "clusterConfigPath (destination ?rdwr) = ''d/config.yml''"
    by (simp_all add: path_defs)
  have prd: "ioutil_ReadFile ?fs (profileConfigPath (destination ?rdwr)) = Inr (Yaml (IMap ?pdoc))"
    by (simp add: path_defs ioutil_ReadFile_def)
  have crd: "ioutil_ReadFile ?fs (clusterConfigPath (destination ?rdwr)) = Inr (Yaml (IMap ?cdoc))"
    by (simp add: path_defs ioutil_ReadFile_def)
  have pun: "yaml_Unmarshal (Yaml (IMap ?pdoc)) = Inr ?pdoc"
    and cun: "yaml_Unmarshal (Yaml (IMap ?cdoc)) = Inr ?cdoc"
    by (simp_all add: yaml_Unmarshal_def)
  have pco: "map_of ?pdoc (IString ''ecs_profiles'') = Some (IMap [])"
    and cco: "map_of ?cdoc (IString ''clusters'') = Some (IMap ?clusters)"
    by simp_all
  have ok: "writes_succeed ?rdwr ?fs"
    by (simp add: writes_succeed_def)
  note inst = save_inserts_entry_first_becomes_default
    [where fs = ?fs and rdwr = ?rdwr and pdat = "Yaml (IMap ?pdoc)" and profileMap = ?pdoc
       and profiles = "[]" and profile = ?profile and cdat = "Yaml (IMap ?cdoc)"
       and clusterMap = ?cdoc and clusters = ?clusters and cluster = ?cluster]
  have hp: "ioutil_ReadFile ?fs (profileConfigPath (destination ?rdwr)) = Inr (Yaml (IMap ?pdoc)) \<and>
      yaml_Unmarshal (Yaml (IMap ?pdoc)) = Inr ?pdoc \<and>
      map_of ?pdoc (IString ''ecs_profiles'') = Some (IMap []) \<and>
      writes_succeed ?rdwr ?fs"
    by (intro conjI) (rule prd, rule pun, rule pco, rule ok)
  from inst [THEN conjunct1, THEN mp, OF hp]
  obtain fs1 profileMap' profiles' where p:
      "SaveProfile ?rdwr ?fs ?profile = (None, fs1)"
      "map_option data (files fs1 (profileConfigPath (destination ?rdwr)))
        = Some (Yaml (IMap profileMap'))"
      "map_of profileMap' (IString ''ecs_profiles'') = Some (IMap profiles')"
      "map_of profiles' = (map_of [])(IString (profileName ?profile) \<mapsto>
         IMap [(IString awsAccessKey, IString (p_awsAccessKey ?profile)),
               (IString awsSecretKey, IString (p_awsSecretKey ?profile))])"
      "map_of profileMap' (IString ''default'') =
        (if dom (map_of ([] :: imap)) = {} then Some (IString (profileName ?profile))
         else map_of ?pdoc (IString ''default''))"
    by (elim exE conjE) (rule that, assumption+)
  have pfile: "map_option data (files fs1 ''d/profile.yml'') = Some (Yaml (IMap profileMap'))"
    using p(2) unfolding ppath .
  have pentry: "map_of profiles' (IString ''p1'') =
          Some (IMap [(IString ''aws_access_key_id'', IString ''AKIA''),
                      (IString ''aws_secret_access_key'', IString ''s3cr3t'')])"
    by (simp add: p(4) key_defs)
  have pdefault: "map_of profileMap' (IString ''default'') = Some (IString ''p1'')"
    by (simp add: p(5))
  have P: "\<exists>fs' profileMap' profiles'.
        SaveProfile ?rdwr ?fs ?profile = (None, fs') \<and>
        map_option data (files fs' ''d/profile.yml'') = Some (Yaml (IMap profileMap')) \<and>
        map_of profileMap' (IString ''ecs_profiles'') = Some (IMap profiles') \<and>
        map_of profiles' (IString ''p1'') =
          Some (IMap [(IString ''aws_access_key_id'', IString ''AKIA''),
                      (IString ''aws_secret_access_key'', IString ''s3cr3t'')]) \<and>
        map_of profileMap' (IString ''default'') = Some (IString ''p1'')"
    by (rule exI [of _ fs1], rule exI [of _ profileMap'], rule exI [of _ profiles'],
        intro conjI, rule p(1), rule pfile, rule p(3), rule pentry, rule pdefault)
  have hc: "ioutil_ReadFile ?fs (clusterConfigPath (destination ?rdwr)) = Inr (Yaml (IMap ?cdoc)) \<and>
      yaml_Unmarshal (Yaml (IMap ?cdoc)) = Inr ?cdoc \<and>
      map_of ?cdoc (IString ''clusters'') = Some (IMap ?clusters) \<and>
      writes_succeed ?rdwr ?fs"
    by (intro conjI) (rule crd, rule cun, rule cco, rule ok)
  from inst [THEN conjunct2, THEN mp, OF hc]
  obtain fs2 clusterMap' clusters' where c:
      "SaveCluster ?rdwr ?fs ?cluster = (None, fs2)"
      "map_option data (files fs2 (clusterConfigPath (destination ?rdwr)))
        = Some (Yaml (IMap clusterMap'))"
      "map_of clusterMap' (IString ''clusters'') = Some (IMap clusters')"
      "map_of clusters' = (map_of ?clusters)(IString (clusterName ?cluster) \<mapsto>
         IMap [(IString clusterKey, IString (c_cluster ?cluster)),
               (IString regionKey, IString (c_region ?cluster))])"
      "map_of clusterMap' (IString ''default'') =
        (if dom (map_of ?clusters) = {} then Some (IString (clusterName ?cluster))
         else map_of ?cdoc (IString ''default''))"
    by (elim exE conjE) (rule that, assumption+)
  have cfile: "map_option data (files fs2 ''d/config.yml'') = Some (Yaml (IMap clusterMap'))"
    using c(2) unfolding cpath .
  have cnew: "map_of clusters' (IString ''new'') =
          Some (IMap [(IString ''cluster'', IString ''c1''),
                      (IString ''region'', IString ''us-west-2'')])"
    by (simp add: c(4) key_defs)
  have cold: "map_of clusters' (IString ''old'') = Some ?old"
    by (simp add: c(4))
  have cdefault: "map_of clusterMap' (IString ''default'') = Some (IString ''old'')"
    by (simp add: c(5))
  have C: "\<exists>fs' clusterMap' clusters'.
        SaveCluster ?rdwr ?fs ?cluster = (None, fs') \<and>
        map_option data (files fs' ''d/config.yml'') = Some (Yaml (IMap clusterMap')) \<and>
        map_of clusterMap' (IString ''clusters'') = Some (IMap clusters') \<and>
        map_of clusters' (IString ''new'') =
          Some (IMap [(IString ''cluster'', IString ''c1''),
                      (IString ''region'', IString ''us-west-2'')]) \<and>
        map_of clusters' (IString ''old'') = Some ?old \<and>
        map_of clusterMap' (IString ''default'') = Some (IString ''old'')"
    by (rule exI [of _ fs2], rule exI [of _ clusterMap'], rule exI [of _ clusters'],
        intro conjI, rule c(1), rule cfile, rule c(3), rule cnew, rule cold, rule cdefault)
  show ?thesis
    by (intro conjI) (rule prd, rule pun, rule pco, rule ok, rule P, rule C)
qed

subsection \<open>Errors of the write\<close>

text \<open>
  Once the document has been read, what a save operation returns does not depend on
  \<open>saveToFile\<close>: it is nil whether the directory, the permission change and the
  write went through or not.
\<close>

lemma SetDefaultProfile_returns_nil:
  "ioutil_ReadFile fs (profileConfigPath (destination rdwr)) = Inr dat \<Longrightarrow>
   yaml_Unmarshal dat = Inr profileMap \<Longrightarrow>
   fst (SetDefaultProfile rdwr fs profile) = None"
  by (simp add: SetDefaultProfile_def Let_def)

lemma SetDefaultCluster_returns_nil:
  "ioutil_ReadFile fs (clusterConfigPath (destination rdwr)) = Inr dat \<Longrightarrow>
   yaml_Unmarshal dat = Inr clusterMap \<Longrightarrow>
   fst (SetDefaultCluster rdwr fs cluster) = None"
  by (simp add: SetDefaultCluster_def Let_def)

lemma SaveProfile_returns_nil:
  "ioutil_ReadFile fs (profileConfigPath (destination rdwr)) = Inr dat \<Longrightarrow>
   yaml_Unmarshal dat = Inr profileMap \<Longrightarrow>
   map_of profileMap (IString ''ecs_profiles'') = Some (IMap profiles) \<Longrightarrow>
   fst (SaveProfile rdwr fs profile) = None"
  by (simp add: SaveProfile_def Let_def index_Some assert_map_def)

lemma SaveCluster_returns_nil:
  "ioutil_ReadFile fs (clusterConfigPath (destination rdwr)) = Inr dat \<Longrightarrow>
   yaml_Unmarshal dat = Inr clusterMap \<Longrightarrow>
   map_of clusterMap (IString ''clusters'') = Some (IMap clusters) \<Longrightarrow>
   fst (SaveCluster rdwr fs cluster) = None"
  by (simp add: SaveCluster_def Let_def index_Some assert_map_def)

text \<open>
  C4, on the code: with a profile document whose container is empty and a disk that
  takes no more data, \<open>saveToFile\<close> reports the error of the write, \<open>SaveProfile\<close>
  returns nil, and the file is as it was; with a permission change that fails,
  \<open>saveToFile\<close> reports it, \<open>SetDefaultProfile\<close> returns nil, and the file is as it
  was.
\<close>

theorem save_operations_drop_write_error:
  "fst (saveToFile \<lparr>destination = \<lparr>Path = ''d'', Mode = 448\<rparr>\<rparr>
          \<lparr>files = [''d/profile.yml'' \<mapsto>
                     \<lparr>data = Yaml (IMap [(IString ''ecs_profiles'', IMap [])]), perm = 420\<rparr>],
           dirs = [''d''], read_err = (\<lambda>p. None), mkdir_err = None, chmod_err = None,
           write_err = Some (OSError ''no space left on device'')\<rparr>
          ''d/profile.yml''
          [(IString ''ecs_profiles'', IMap []), (IString ''default'', IString ''p1'')])
     = Some (OSError ''no space left on device'')
   \<and> fst (SaveProfile \<lparr>destination = \<lparr>Path = ''d'', Mode = 448\<rparr>\<rparr>
          \<lparr>files = [''d/profile.yml'' \<mapsto>
                     \<lparr>data = Yaml (IMap [(IString ''ecs_profiles'', IMap [])]), perm = 420\<rparr>],
           dirs = [''d''], read_err = (\<lambda>p. None), mkdir_err = None, chmod_err = None,
           write_err = Some (OSError ''no space left on device'')\<rparr>
          \<lparr>profileName = ''p1'', p_awsAccessKey = ''AKIA'', p_awsSecretKey = ''s3cr3t''\<rparr>)
     = None
   \<and> map_option data (files (snd (SaveProfile \<lparr>destination = \<lparr>Path = ''d'', Mode = 448\<rparr>\<rparr>
          \<lparr>files = [''d/profile.yml'' \<mapsto>
                     \<lparr>data = Yaml (IMap [(IString ''ecs_profiles'', IMap [])]), perm = 420\<rparr>],
           dirs = [''d''], read_err = (\<lambda>p. None), mkdir_err = None, chmod_err = None,
           write_err = Some (OSError ''no space left on device'')\<rparr>
          \<lparr>profileName = ''p1'', p_awsAccessKey = ''AKIA'', p_awsSecretKey = ''s3cr3t''\<rparr>))
        ''d/profile.yml'')
     = Some (Yaml (IMap [(IString ''ecs_profiles'', IMap [])]))
   \<and> fst (saveToFile \<lparr>destination = \<lparr>Path = ''d'', Mode = 448\<rparr>\<rparr>
          \<lparr>files = [''d/profile.yml'' \<mapsto>
                     \<lparr>data = Yaml (IMap [(IString ''ecs_profiles'', IMap [])]), perm = 420\<rparr>],
           dirs = [''d''], read_err = (\<lambda>p. None), mkdir_err = None,
           chmod_err = Some (OSError ''operation not permitted''), write_err = None\<rparr>
          ''d/profile.yml''
          [(IString ''ecs_profiles'', IMap []), (IString ''default'', IString ''p2'')])
     = Some (OSError ''operation not permitted'')
   \<and> fst (SetDefaultProfile \<lparr>destination = \<lparr>Path = ''d'', Mode = 448\<rparr>\<rparr>
          \<lparr>files = [''d/profile.yml'' \<mapsto>
                     \<lparr>data = Yaml (IMap [(IString ''ecs_profiles'', IMap [])]), perm = 420\<rparr>],
           dirs = [''d''], read_err = (\<lambda>p. None), mkdir_err = None,
           chmod_err = Some (OSError ''operation not permitted''), write_err = None\<rparr>
          ''p2'')
     = None
   \<and> files (snd (SetDefaultProfile \<lparr>destination = \<lparr>Path = ''d'', Mode = 448\<rparr>\<rparr>
          \<lparr>files = [''d/profile.yml'' \<mapsto>
                     \<lparr>data = Yaml (IMap [(IString ''ecs_profiles'', IMap [])]), perm = 420\<rparr>],
           dirs = [''d''], read_err = (\<lambda>p. None), mkdir_err = None,
           chmod_err = Some (OSError ''operation not permitted''), write_err = None\<rparr>
          ''p2''))
        ''d/profile.yml''
     = Some \<lparr>data = Yaml (IMap [(IString ''ecs_profiles'', IMap [])]), perm = 420\<rparr>"
  by (simp add: SaveProfile_def SetDefaultProfile_def saveToFile_def Let_def
      fs_defs path_defs map_defs key_defs)

subsection \<open>Resolution\<close>

text \<open>
  C1, on the code. The profile document has no "default" key and the selectors are
  empty: \<open>processProfileMap\<close> returns the format error, and \<open>GetConfigs\<close> returns a
  nil error with a configuration that has the cluster and the region and no
  credentials. With a named profile whose secret key is missing, \<open>GetConfigs\<close> returns
  a nil error and a configuration with the access key only. With a container that is
  not a mapping, \<open>GetConfigs\<close> panics.
\<close>

theorem GetConfigs_drops_format_error:
  "processProfileMap []
     [(IString ''ecs_profiles'', IMap [(IString ''p1'',
         IMap [(IString ''aws_access_key_id'', IString ''AKIA'')])])]
     [] new_CliConfig
     = Returns (Some ProfileFormatIssue, [], new_CliConfig)
   \<and> GetConfigs \<lparr>destination = \<lparr>Path = ''d'', Mode = 448\<rparr>\<rparr>
       (\<lambda>dest fs. Inl (NotExist ''d/config''))
       \<lparr>files = [''d/config.yml'' \<mapsto>
                   \<lparr>data = Yaml (IMap [(IString ''default'', IString ''c1''),
                      (IString ''clusters'', IMap [(IString ''c1'',
                         IMap [(IString ''cluster'', IString ''prod''),
                               (IString ''region'', IString ''us-west-2'')])])]),
                    perm = 384\<rparr>,
                 ''d/profile.yml'' \<mapsto>
                   \<lparr>data = Yaml (IMap [(IString ''ecs_profiles'', IMap [(IString ''p1'',
                         IMap [(IString ''aws_access_key_id'', IString ''AKIA'')])])]),
                    perm = 384\<rparr>],
        dirs = [''d''], read_err = (\<lambda>p. None), mkdir_err = None, chmod_err = None,
        write_err = None\<rparr>
       [] []
     = Returns
        (Some \<lparr>Cluster = ''prod'', Region = ''us-west-2'', AwsProfile = [],
               AwsAccessKey = [], AwsSecretKey = [], ComposeProjectNamePrefix = [],
               ComposeServiceNamePrefix = [], CFNStackNamePrefix = []\<rparr>,
         Some [(IString ''cluster'', IString ''prod''),
               (IString ''region'', IString ''us-west-2'')],
         None)
   \<and> GetConfigs \<lparr>destination = \<lparr>Path = ''d'', Mode = 448\<rparr>\<rparr>
       (\<lambda>dest fs. Inl (NotExist ''d/config''))
       \<lparr>files = [''d/config.yml'' \<mapsto>
                   \<lparr>data = Yaml (IMap [(IString ''default'', IString ''c1''),
                      (IString ''clusters'', IMap [(IString ''c1'',
                         IMap [(IString ''cluster'', IString ''prod''),
                               (IString ''region'', IString ''us-west-2'')])])]),
                    perm = 384\<rparr>,
                 ''d/profile.yml'' \<mapsto>
                   \<lparr>data = Yaml (IMap [(IString ''ecs_profiles'', IMap [(IString ''p1'',
                         IMap [(IString ''aws_access_key_id'', IString ''AKIA'')])])]),
                    perm = 384\<rparr>],
        dirs = [''d''], read_err = (\<lambda>p. None), mkdir_err = None, chmod_err = None,
        write_err = None\<rparr>
       [] ''p1''
     = Returns
        (Some \<lparr>Cluster = ''prod'', Region = ''us-west-2'', AwsProfile = [],
               AwsAccessKey = ''AKIA'', AwsSecretKey = [], ComposeProjectNamePrefix = [],
               ComposeServiceNamePrefix = [], CFNStackNamePrefix = []\<rparr>,
         Some [(IString ''aws_access_key_id'', IString ''AKIA''),
               (IString ''aws_secret_access_key'', INil),
               (IString ''cluster'', IString ''prod''),
               (IString ''region'', IString ''us-west-2'')],
         None)
   \<and> GetConfigs \<lparr>destination = \<lparr>Path = ''d'', Mode = 448\<rparr>\<rparr>
       (\<lambda>dest fs. Inl (NotExist ''d/config''))
       \<lparr>files = [''d/config.yml'' \<mapsto>
                   \<lparr>data = Yaml (IMap [(IString ''default'', IString ''c1''),
                      (IString ''clusters'', IMap [(IString ''c1'',
                         IMap [(IString ''cluster'', IString ''prod''),
                               (IString ''region'', IString ''us-west-2'')])])]),
                    perm = 384\<rparr>,
                 ''d/profile.yml'' \<mapsto>
                   \<lparr>data = Yaml (IMap [(IString ''default'', IString ''p1''),
                                       (IString ''ecs_profiles'', IString ''p1'')]),
                    perm = 384\<rparr>],
        dirs = [''d''], read_err = (\<lambda>p. None), mkdir_err = None, chmod_err = None,
        write_err = None\<rparr>
       [] []
     = Panic"
  by (simp add: GetConfigs_def processProfileMap_def processClusterMap_def prefix_block_def
      new_CliConfig_def Let_def fs_defs path_defs map_defs key_defs)

end
